theory Spec2Isabelle
  imports Main "HOL-Library.AList"
begin

section \<open>Python values, exceptions and the process environment\<close>

text \<open>
  The scripts handle JSON-like values: the nested configuration dictionary handed to the
  memory client's factory, and the responses of the memory client. A dictionary is an
  association list in insertion order, looked up with \<open>map_of\<close>; its keys are strings.
  The float literal \<open>0.2\<close> of the source is \<open>PFloat 2 (-1)\<close> (mantissa and decimal
  exponent); it is only stored, never computed with.
\<close>

datatype pyval =
    PNone
  | PBool bool
  | PInt int
  | PFloat int int
  | PStr string
  | PList "pyval list"
  | PDict "(string \<times> pyval) list"

text \<open>
  Exceptions are values. \<open>ClientError\<close> stands for any exception (a subclass of
  \<open>Exception\<close>) raised by the external memory client or vector-database client.
\<close>

datatype exn =
    KeyError string
  | TypeError
  | AttributeError
  | ValueError string
  | UnboundLocalError string
  | EOFError
  | ClientError string

definition bind_exn :: "exn + 'a \<Rightarrow> ('a \<Rightarrow> exn + 'b) \<Rightarrow> exn + 'b" where
  "bind_exn m f = (case m of Inl e \<Rightarrow> Inl e | Inr v \<Rightarrow> f v)"

text \<open>Truthiness, as \<open>if x:\<close> and \<open>x or y\<close> test it.\<close>

fun py_truthy :: "pyval \<Rightarrow> bool" where
  "py_truthy PNone = False"
| "py_truthy (PBool b) = b"
| "py_truthy (PInt i) = (i \<noteq> 0)"
| "py_truthy (PFloat m e) = (m \<noteq> 0)"
| "py_truthy (PStr s) = (s \<noteq> [])"
| "py_truthy (PList xs) = (xs \<noteq> [])"
| "py_truthy (PDict kvs) = (kvs \<noteq> [])"

text \<open>\<open>d[k]\<close> with a string key: KeyError on a missing key, TypeError on a non-dict.\<close>

fun py_getitem :: "pyval \<Rightarrow> string \<Rightarrow> exn + pyval" where
  "py_getitem (PDict kvs) k =
     (case map_of kvs k of None \<Rightarrow> Inl (KeyError k) | Some v \<Rightarrow> Inr v)"
| "py_getitem _ k = Inl TypeError"

text \<open>\<open>d[k] = v\<close>: replaces the value in place or appends the new key.\<close>

fun py_setitem :: "pyval \<Rightarrow> string \<Rightarrow> pyval \<Rightarrow> exn + pyval" where
  "py_setitem (PDict kvs) k v = Inr (PDict (AList.update k v kvs))"
| "py_setitem _ k v = Inl TypeError"

text \<open>
  Reading a nested dictionary along a path of keys (\<open>d[k1][k2]...\<close>), and the keys of a
  dictionary in insertion order; both are used to state what a configuration holds.
\<close>

fun py_path :: "pyval \<Rightarrow> string list \<Rightarrow> exn + pyval" where
  "py_path v [] = Inr v"
| "py_path v (k # ks) = bind_exn (py_getitem v k) (\<lambda>u. py_path u ks)"

definition py_keys :: "pyval \<Rightarrow> exn + string list" where
  "py_keys v = (case v of PDict kvs \<Rightarrow> Inr (map fst kvs) | _ \<Rightarrow> Inl AttributeError)"

definition keys_at :: "pyval \<Rightarrow> string list \<Rightarrow> exn + string list" where
  "keys_at v path = bind_exn (py_path v path) py_keys"

text \<open>
  The process environment \<open>os.environ\<close>. \<open>os.getenv(k)\<close> and \<open>os.environ.get(k)\<close>
  are \<open>env k\<close>, with \<open>None\<close> for an unset variable.
\<close>

type_synonym environ = "string \<rightharpoonup> string"

definition getenv_default :: "environ \<Rightarrow> string \<Rightarrow> string \<Rightarrow> string" where
  "getenv_default env k d = (case env k of None \<Rightarrow> d | Some v \<Rightarrow> v)"

definition opt_truthy :: "string option \<Rightarrow> bool" where
  "opt_truthy v = (case v of None \<Rightarrow> False | Some s \<Rightarrow> s \<noteq> [])"

definition opt_val :: "string option \<Rightarrow> pyval" where
  "opt_val v = (case v of None \<Rightarrow> PNone | Some s \<Rightarrow> PStr s)"

text \<open>\<open>x or d\<close> for an optional string \<open>x\<close> and a string literal \<open>d\<close>.\<close>

definition opt_or :: "string option \<Rightarrow> string \<Rightarrow> string" where
  "opt_or v d = (case v of None \<Rightarrow> d | Some s \<Rightarrow> if s \<noteq> [] then s else d)"

text \<open>
  \<open>if key and not os.environ.get(name): os.environ[name] = key\<close>, and the
  unguarded \<open>if key: os.environ[name] = key\<close>.
\<close>

definition setenv_if_unset :: "environ \<Rightarrow> string \<Rightarrow> string option \<Rightarrow> environ" where
  "setenv_if_unset env name key =
     (case key of
        None \<Rightarrow> env
      | Some k \<Rightarrow> if k \<noteq> [] \<and> \<not> opt_truthy (env name) then env(name \<mapsto> k) else env)"

definition setenv_if_key :: "environ \<Rightarrow> string \<Rightarrow> string option \<Rightarrow> environ" where
  "setenv_if_key env name key =
     (case key of
        None \<Rightarrow> env
      | Some k \<Rightarrow> if k \<noteq> [] then env(name \<mapsto> k) else env)"

section \<open>The provider-configuration builder (src/utils.py)\<close>

text \<open>
  \<open>get_mem0_client\<close>, lines 20 to 70: the language-model section and the propagation of
  the API key into the environment. The state is the configuration built so far and the
  environment.
\<close>

definition configure_llm :: "pyval \<Rightarrow> environ \<Rightarrow> exn + (pyval \<times> environ)" where
  "configure_llm config env =
     (let llm_provider = env ''LLM_PROVIDER'';
          llm_api_key = env ''LLM_API_KEY'';
          llm_model = env ''LLM_CHOICE''
      in
      if llm_provider = Some ''openai'' \<or> llm_provider = Some ''openrouter'' then
        bind_exn (py_setitem config ''llm''
          (PDict [(''provider'', PStr ''openai''),
                  (''config'', PDict [(''model'', opt_val llm_model),
                                      (''temperature'', PFloat 2 (- 1)),
                                      (''max_tokens'', PInt 2000)])]))
        (\<lambda>config1.
          let env1 = setenv_if_unset env ''OPENAI_API_KEY'' llm_api_key;
              env2 = (if llm_provider = Some ''openrouter''
                      then setenv_if_key env1 ''OPENROUTER_API_KEY'' llm_api_key
                      else env1)
          in Inr (config1, env2))
      else if llm_provider = Some ''github_copilot'' then
        bind_exn (py_setitem config ''llm''
          (PDict [(''provider'', PStr ''litellm''),
                  (''config'', PDict [(''model'', PStr (opt_or llm_model ''github_copilot/gpt-4o'')),
                                      (''temperature'', PFloat 2 (- 1)),
                                      (''max_tokens'', PInt 2000)])]))
        (\<lambda>config1. Inr (config1, env))
      else if llm_provider = Some ''ollama'' then
        bind_exn (py_setitem config ''llm''
          (PDict [(''provider'', PStr ''ollama''),
                  (''config'', PDict [(''model'', opt_val llm_model),
                                      (''temperature'', PFloat 2 (- 1)),
                                      (''max_tokens'', PInt 2000)])]))
        (\<lambda>config1.
          let llm_base_url = env ''LLM_BASE_URL'' in
          if opt_truthy llm_base_url then
            bind_exn (py_getitem config1 ''llm'') (\<lambda>llm.
            bind_exn (py_getitem llm ''config'') (\<lambda>c.
            bind_exn (py_setitem c ''ollama_base_url'' (opt_val llm_base_url)) (\<lambda>c1.
            bind_exn (py_setitem llm ''config'' c1) (\<lambda>llm1.
            bind_exn (py_setitem config1 ''llm'' llm1) (\<lambda>config2.
            Inr (config2, env))))))
          else Inr (config1, env))
      else Inr (config, env))"

text \<open>Lines 72 to 107: the embedding section.\<close>

definition configure_embedder :: "pyval \<Rightarrow> environ \<Rightarrow> exn + (pyval \<times> environ)" where
  "configure_embedder config env =
     (let llm_provider = env ''LLM_PROVIDER'';
          llm_api_key = env ''LLM_API_KEY'';
          embedding_model = env ''EMBEDDING_MODEL_CHOICE''
      in
      if llm_provider = Some ''openai'' then
        bind_exn (py_setitem config ''embedder''
          (PDict [(''provider'', PStr ''openai''),
                  (''config'', PDict [(''model'', PStr (opt_or embedding_model ''text-embedding-3-small'')),
                                      (''embedding_dims'', PInt 1536)])]))
        (\<lambda>config1. Inr (config1, setenv_if_unset env ''OPENAI_API_KEY'' llm_api_key))
      else if llm_provider = Some ''github_copilot'' then
        bind_exn (py_setitem config ''embedder''
          (PDict [(''provider'', PStr ''github_copilot''),
                  (''config'', PDict [(''model'', PStr (opt_or embedding_model
                                                    ''github_copilot/text-embedding-3-small'')),
                                      (''embedding_dims'', PInt 1536)])]))
        (\<lambda>config1. Inr (config1, env))
      else if llm_provider = Some ''ollama'' then
        bind_exn (py_setitem config ''embedder''
          (PDict [(''provider'', PStr ''ollama''),
                  (''config'', PDict [(''model'', PStr (opt_or embedding_model ''nomic-embed-text'')),
                                      (''embedding_dims'', PInt 768)])]))
        (\<lambda>config1.
          let embedding_base_url = env ''LLM_BASE_URL'' in
          if opt_truthy embedding_base_url then
            bind_exn (py_getitem config1 ''embedder'') (\<lambda>emb.
            bind_exn (py_getitem emb ''config'') (\<lambda>c.
            bind_exn (py_setitem c ''ollama_base_url'' (opt_val embedding_base_url)) (\<lambda>c1.
            bind_exn (py_setitem emb ''config'' c1) (\<lambda>emb1.
            bind_exn (py_setitem config1 ''embedder'' emb1) (\<lambda>config2.
            Inr (config2, env))))))
          else Inr (config1, env))
      else Inr (config, env))"

text \<open>Lines 110 to 114: the dimensionality carried by the vector-store section.\<close>

definition vector_store_dims :: "string option \<Rightarrow> int" where
  "vector_store_dims llm_provider =
     (if llm_provider = Some ''openai'' \<or> llm_provider = Some ''github_copilot'' then 1536
      else if llm_provider = Some ''ollama'' then 768
      else 1536)"

text \<open>Lines 117 to 139: the vector-store section, selected by \<open>VECTOR_STORE_PROVIDER\<close>.\<close>

definition configure_vector_store :: "pyval \<Rightarrow> environ \<Rightarrow> exn + pyval" where
  "configure_vector_store config env =
     (let embedding_dims = vector_store_dims (env ''LLM_PROVIDER'');
          vector_store_provider = getenv_default env ''VECTOR_STORE_PROVIDER'' ''supabase''
      in
      if vector_store_provider = ''qdrant'' then
        py_setitem config ''vector_store''
          (PDict [(''provider'', PStr ''qdrant''),
                  (''config'', PDict
                     [(''collection_name'',
                         PStr (getenv_default env ''QDRANT_COLLECTION_NAME'' ''mem0_memories'')),
                      (''embedding_model_dims'', PInt embedding_dims),
                      (''url'', opt_val (env ''QDRANT_URL'')),
                      (''api_key'', opt_val (env ''QDRANT_API_KEY''))])])
      else
        py_setitem config ''vector_store''
          (PDict [(''provider'', PStr ''supabase''),
                  (''config'', PDict
                     [(''connection_string'', PStr (getenv_default env ''DATABASE_URL'' [])),
                      (''collection_name'', PStr ''mem0_memories''),
                      (''embedding_model_dims'', PInt embedding_dims)])]))"

text \<open>
  The two dictionaries of lines 121 to 129 and 132 to 139, named for the statements about
  them, and the one that the selector picks.
\<close>

definition qdrant_section :: "environ \<Rightarrow> pyval" where
  "qdrant_section env =
     PDict [(''provider'', PStr ''qdrant''),
            (''config'', PDict
               [(''collection_name'',
                   PStr (getenv_default env ''QDRANT_COLLECTION_NAME'' ''mem0_memories'')),
                (''embedding_model_dims'', PInt (vector_store_dims (env ''LLM_PROVIDER''))),
                (''url'', opt_val (env ''QDRANT_URL'')),
                (''api_key'', opt_val (env ''QDRANT_API_KEY''))])]"

definition supabase_section :: "environ \<Rightarrow> pyval" where
  "supabase_section env =
     PDict [(''provider'', PStr ''supabase''),
            (''config'', PDict
               [(''connection_string'', PStr (getenv_default env ''DATABASE_URL'' [])),
                (''collection_name'', PStr ''mem0_memories''),
                (''embedding_model_dims'', PInt (vector_store_dims (env ''LLM_PROVIDER'')))])]"

definition vector_store_section :: "environ \<Rightarrow> pyval" where
  "vector_store_section env =
     (if env ''VECTOR_STORE_PROVIDER'' = Some ''qdrant''
      then qdrant_section env else supabase_section env)"

text \<open>
  The configuration-building portion of \<open>get_mem0_client\<close> (everything before line 144):
  the configuration and the environment it leaves behind, or the exception raised.
\<close>

definition get_mem0_client_config :: "environ \<Rightarrow> exn + (pyval \<times> environ)" where
  "get_mem0_client_config env =
     bind_exn (configure_llm (PDict []) env) (\<lambda>(config1, env1).
     bind_exn (configure_embedder config1 env1) (\<lambda>(config2, env2).
     bind_exn (configure_vector_store config2 env2) (\<lambda>config3.
     Inr (config3, env2))))"

section \<open>The world the scripts run in\<close>

text \<open>
  The scripts talk to two external services through client objects, print to the console and
  read confirmations from standard input. The world threaded through every function holds
  the state of the external service (of any type \<open>'c\<close>), the log of the requests issued to
  the client in order, each with a flag telling whether it returned normally, the lines
  printed so far, the lines still to be read from standard input, and the environment.
\<close>

datatype distance = COSINE

datatype call =
    FromConfig pyval
  | GetAll "string option" "string option" "string option"
  | Delete pyval
  | DeleteAll "string option" "string option" "string option"
  | GetCollections
  | DeleteCollection string
  | CreateCollection string int distance
  | Scroll string int
  | DeletePoints string "pyval list"

text \<open>
  What \<open>print\<close> writes. A message is the ASCII text of the source's literal (emoji and
  quote characters dropped) with the interpolated values beside it: \<open>Line\<close> for a fixed
  text, \<open>LineS\<close>, \<open>LineN\<close>, \<open>LineV\<close> and \<open>LineE\<close> for a text with one string,
  number, Python value or exception, \<open>LineSN\<close>, \<open>LineSE\<close>, \<open>LineVE\<close> and
  \<open>LineNV\<close> for a text with two values. \<open>Prompt\<close> is the text shown by \<open>input\<close>.
  Where the source prints a fixed block in one go (the banner of the interactive mode, the
  usage text of \<open>main\<close>), the block is one message.
\<close>

datatype msg =
    Line string
  | LineS string string
  | LineN string int
  | LineV string pyval
  | LineE string exn
  | LineSN string string int
  | LineSE string string exn
  | LineVE string pyval exn
  | LineNV string int pyval
  | Prompt string

record 'c world =
  service :: 'c
  calls :: "(call \<times> bool) list"
  out :: "msg list"
  stdin :: "string list"
  environ :: environ

definition print :: "msg \<Rightarrow> 'c world \<Rightarrow> 'c world" where
  "print m w = w\<lparr>out := out w @ [m]\<rparr>"

text \<open>\<open>input(prompt)\<close>: shows the prompt and reads one line; EOFError at end of input.\<close>

definition input :: "string \<Rightarrow> 'c world \<Rightarrow> (exn + string) \<times> 'c world" where
  "input prompt w =
     (let w1 = print (Prompt prompt) w in
      case stdin w1 of
        [] \<Rightarrow> (Inl EOFError, w1)
      | l # ls \<Rightarrow> (Inr l, w1\<lparr>stdin := ls\<rparr>))"

text \<open>A request to the external client: the service answers or raises, and the log grows.\<close>

definition returned :: "exn + 'a \<Rightarrow> bool" where
  "returned r = (case r of Inl e \<Rightarrow> False | Inr v \<Rightarrow> True)"

definition request ::
  "call \<Rightarrow> ('c \<Rightarrow> (exn + 'a) \<times> 'c) \<Rightarrow> 'c world \<Rightarrow> (exn + 'a) \<times> 'c world" where
  "request c f w =
     (case f (service w) of
        (r, s) \<Rightarrow> (r, w\<lparr>service := s, calls := calls w @ [(c, returned r)]\<rparr>))"

text \<open>How a function ends: it returns, the process exits, or an exception propagates.\<close>

datatype 'a ending = Return 'a | Exit int | Raise exn

fun exit_status :: "'a ending \<Rightarrow> int" where
  "exit_status (Return v) = 0"
| "exit_status (Exit n) = n"
| "exit_status (Raise e) = 1"

text \<open>The operations of the external memory client that the scripts use.\<close>

record 'c mem0_api =
  mem_from_config :: "pyval \<Rightarrow> environ \<Rightarrow> 'c \<Rightarrow> (exn + unit) \<times> 'c"
  mem_get_all :: "string option \<Rightarrow> string option \<Rightarrow> string option \<Rightarrow> 'c \<Rightarrow> (exn + pyval) \<times> 'c"
  mem_delete :: "pyval \<Rightarrow> 'c \<Rightarrow> (exn + unit) \<times> 'c"
  mem_delete_all :: "string option \<Rightarrow> string option \<Rightarrow> string option \<Rightarrow> 'c \<Rightarrow> (exn + unit) \<times> 'c"

text \<open>
  \<open>get_mem0_client\<close> of src/utils.py: line 144 hands the configuration to the external
  factory \<open>Memory.from_config\<close>, which reads the credentials from the environment.
\<close>

definition get_mem0_client :: "'c mem0_api \<Rightarrow> 'c world \<Rightarrow> (exn + unit) \<times> 'c world" where
  "get_mem0_client api w =
     (case get_mem0_client_config (environ w) of
        Inl e \<Rightarrow> (Inl e, w)
      | Inr (config, env1) \<Rightarrow>
          request (FromConfig config) (mem_from_config api config env1) (w\<lparr>environ := env1\<rparr>))"

section \<open>The memory manager (scripts/mem0_memory_manager.py)\<close>

subsection \<open>Operations on Python values\<close>

text \<open>
  \<open>len(x)\<close> and iteration (\<open>for m in x\<close>): defined on strings, lists and dictionaries,
  TypeError elsewhere. Iterating a string gives its characters, a dictionary its keys.
\<close>

fun py_len :: "pyval \<Rightarrow> exn + nat" where
  "py_len (PStr s) = Inr (length s)"
| "py_len (PList xs) = Inr (length xs)"
| "py_len (PDict kvs) = Inr (length kvs)"
| "py_len _ = Inl TypeError"

fun py_iter :: "pyval \<Rightarrow> exn + pyval list" where
  "py_iter (PStr s) = Inr (map (\<lambda>c. PStr [c]) s)"
| "py_iter (PList xs) = Inr xs"
| "py_iter (PDict kvs) = Inr (map (\<lambda>kv. PStr (fst kv)) kvs)"
| "py_iter _ = Inl TypeError"

text \<open>\<open>x.get(k, d)\<close>: a method of dictionaries only, AttributeError elsewhere.\<close>

fun py_get :: "pyval \<Rightarrow> string \<Rightarrow> pyval \<Rightarrow> exn + pyval" where
  "py_get (PDict kvs) k d = Inr (case map_of kvs k of None \<Rightarrow> d | Some v \<Rightarrow> v)"
| "py_get _ k d = Inl AttributeError"

text \<open>
  \<open>x[:n]\<close>: the first \<open>n\<close> elements of a string or a list; a dictionary and the scalars
  raise (TypeError here; the class does not matter to a handler of \<open>Exception\<close>).
\<close>

fun py_slice_to :: "nat \<Rightarrow> pyval \<Rightarrow> exn + pyval" where
  "py_slice_to n (PStr s) = Inr (PStr (take n s))"
| "py_slice_to n (PList xs) = Inr (PList (take n xs))"
| "py_slice_to n _ = Inl TypeError"

text \<open>
  \<open>s.strip()\<close>: the ASCII characters that Python counts as whitespace are removed at both
  ends.
\<close>

definition is_space :: "char \<Rightarrow> bool" where
  "is_space c =
     (c \<in> set [CHR '' '', CHR 0x09, CHR 0x0A, CHR 0x0B, CHR 0x0C, CHR 0x0D,
                CHR 0x1C, CHR 0x1D, CHR 0x1E, CHR 0x1F])"

definition py_strip :: "string \<Rightarrow> string" where
  "py_strip s = rev (dropWhile is_space (rev (dropWhile is_space s)))"

text \<open>
  Lines 221 to 226 (and 301 to 304): the response of \<open>get_all\<close> is a dictionary with a
  \<open>results\<close> key, a list, or something else.
\<close>

fun response_memories :: "pyval \<Rightarrow> pyval" where
  "response_memories (PDict kvs) =
     (case map_of kvs ''results'' of Some v \<Rightarrow> v | None \<Rightarrow> PList [])"
| "response_memories (PList xs) = PList xs"
| "response_memories _ = PList []"

subsection \<open>The duplicated configuration builder (lines 57 to 166)\<close>

text \<open>
  Lines 60 to 147 are lines 20 to 107 of src/utils.py word for word; the vector-store
  section is always the supabase one.
\<close>

definition mm_get_mem0_client_config :: "environ \<Rightarrow> exn + (pyval \<times> environ)" where
  "mm_get_mem0_client_config env =
     bind_exn (configure_llm (PDict []) env) (\<lambda>(config1, env1).
     bind_exn (configure_embedder config1 env1) (\<lambda>(config2, env2).
     bind_exn (py_setitem config2 ''vector_store''
        (PDict [(''provider'', PStr ''supabase''),
                (''config'', PDict
                   [(''connection_string'', PStr (getenv_default env2 ''DATABASE_URL'' [])),
                    (''collection_name'', PStr ''mem0_memories''),
                    (''embedding_model_dims'', PInt (vector_store_dims (env2 ''LLM_PROVIDER'')))])]))
     (\<lambda>config3. Inr (config3, env2))))"

definition mm_get_mem0_client :: "'c mem0_api \<Rightarrow> 'c world \<Rightarrow> (exn + unit) \<times> 'c world" where
  "mm_get_mem0_client api w =
     (case mm_get_mem0_client_config (environ w) of
        Inl e \<Rightarrow> (Inl e, w)
      | Inr (config, env1) \<Rightarrow>
          request (FromConfig config) (mem_from_config api config env1) (w\<lparr>environ := env1\<rparr>))"

definition DEFAULT_USER_ID :: string where
  "DEFAULT_USER_ID = ''user''"

subsection \<open>MemoryManager\<close>

text \<open>\<open>__init__\<close>: a failure to build the client ends the process with status 1.\<close>

definition MemoryManager_init ::
  "'c mem0_api \<Rightarrow> string option \<Rightarrow> 'c world \<Rightarrow> unit ending \<times> 'c world" where
  "MemoryManager_init api database_url w =
     (let w1 =
        (case database_url of
           Some url \<Rightarrow>
             if url \<noteq> [] then
               print (LineS ''Using provided database URL'' (take 50 url))
                 (w\<lparr>environ := (environ w)(''DATABASE_URL'' \<mapsto> url)\<rparr>)
             else if opt_truthy (environ w ''DATABASE_URL'') then
               print (LineS ''Using DATABASE_URL from environment''
                        (take 50 (getenv_default (environ w) ''DATABASE_URL'' []))) w
             else print (Line ''Warning: No DATABASE_URL found in .env or environment.'') w
         | None \<Rightarrow>
             if opt_truthy (environ w ''DATABASE_URL'') then
               print (LineS ''Using DATABASE_URL from environment''
                        (take 50 (getenv_default (environ w) ''DATABASE_URL'' []))) w
             else print (Line ''Warning: No DATABASE_URL found in .env or environment.'') w)
      in
      case mm_get_mem0_client api w1 of
        (Inr u, w2) \<Rightarrow>
          (Return (),
           print (LineS ''LLM Model'' (getenv_default (environ w2) ''LLM_CHOICE'' ''not set''))
             (print (LineS ''LLM Provider'' (getenv_default (environ w2) ''LLM_PROVIDER'' ''not set''))
               (print (Line ''Connected to mem0 successfully'') w2)))
      | (Inl e, w2) \<Rightarrow>
          (Exit 1,
           fold (\<lambda>t. print (Line t))
             [''Check your .env file and ensure all required environment variables are set:'',
              ''   - DATABASE_URL (required)'',
              ''   - LLM_PROVIDER (openai, github_copilot, ollama)'',
              ''   - LLM_CHOICE (model name)'',
              ''   - LLM_API_KEY (if using OpenAI/OpenRouter)'',
              ''   - EMBEDDING_MODEL_CHOICE (optional)'']
             (print (LineE ''Failed to initialize mem0'' e) w2)))"

text \<open>Lines 230 to 236: the listing loop; \<open>i\<close> counts from 1.\<close>

fun print_memories :: "pyval list \<Rightarrow> int \<Rightarrow> 'c world \<Rightarrow> (exn + unit) \<times> 'c world" where
  "print_memories [] i w = (Inr (), w)"
| "print_memories (memory # rest) i w =
     (case py_get memory ''id'' (PStr ''unknown'') of
        Inl e \<Rightarrow> (Inl e, w)
      | Inr v_id \<Rightarrow>
     let w1 = print (LineNV ''ID'' i v_id) w in
     (case bind_exn (py_get memory ''memory'' (PStr ''N/A'')) (py_slice_to 100) of
        Inl e \<Rightarrow> (Inl e, w1)
      | Inr v_memory \<Rightarrow>
     let w2 = print (LineV ''Memory'' v_memory) w1 in
     (case py_get memory ''user_id'' (PStr ''N/A'') of
        Inl e \<Rightarrow> (Inl e, w2)
      | Inr v_user \<Rightarrow>
     let w3 = print (LineV ''User ID'' v_user) w2 in
     (case py_get memory ''agent_id'' (PStr ''N/A'') of
        Inl e \<Rightarrow> (Inl e, w3)
      | Inr v_agent \<Rightarrow>
     let w4 = print (LineV ''Agent ID'' v_agent) w3 in
     (case py_get memory ''created_at'' (PStr ''N/A'') of
        Inl e \<Rightarrow> (Inl e, w4)
      | Inr v_created \<Rightarrow>
     print_memories rest (i + 1)
       (print (Line []) (print (LineV ''Created'' v_created) w4)))))))"

text \<open>
  \<open>list_memories\<close>: the body of the \<open>try\<close>, then the handler. \<open>list_response\<close> is the
  part after the call of \<open>get_all\<close> (lines 220 to 238).
\<close>

definition list_response :: "pyval \<Rightarrow> 'c world \<Rightarrow> (exn + pyval) \<times> 'c world" where
  "list_response memories w =
     (let memories_list = response_memories memories in
      case py_len memories_list of
        Inl e \<Rightarrow> (Inl e, w)
      | Inr n \<Rightarrow>
          let w1 = print (LineN ''Found memories'' (int n)) w in
          (case py_iter memories_list of
             Inl e \<Rightarrow> (Inl e, w1)
           | Inr items \<Rightarrow>
               (case print_memories items 1 w1 of
                  (Inl e, w2) \<Rightarrow> (Inl e, w2)
                | (Inr u, w2) \<Rightarrow> (Inr memories_list, w2))))"

definition list_memories_try ::
  "'c mem0_api \<Rightarrow> string option \<Rightarrow> string option \<Rightarrow> string option \<Rightarrow> 'c world
     \<Rightarrow> (exn + pyval) \<times> 'c world" where
  "list_memories_try api user_id agent_id run_id w =
     (let default = \<not> opt_truthy user_id \<and> \<not> opt_truthy agent_id \<and> \<not> opt_truthy run_id;
          user_id1 = (if default then Some DEFAULT_USER_ID else user_id);
          w1 = (if default
                then print (LineS ''Fetching memories for default user'' DEFAULT_USER_ID) w
                else print (Line ''Fetching memories...'') w)
      in
      case request (GetAll user_id1 agent_id run_id)
             (mem_get_all api user_id1 agent_id run_id) w1 of
        (Inl e, w2) \<Rightarrow> (Inl e, w2)
      | (Inr memories, w2) \<Rightarrow> list_response memories w2)"

definition list_memories ::
  "'c mem0_api \<Rightarrow> string option \<Rightarrow> string option \<Rightarrow> string option \<Rightarrow> 'c world
     \<Rightarrow> pyval \<times> 'c world" where
  "list_memories api user_id agent_id run_id w =
     (case list_memories_try api user_id agent_id run_id w of
        (Inr memories_list, w1) \<Rightarrow> (memories_list, w1)
      | (Inl e, w1) \<Rightarrow> (PList [], print (LineE ''Error listing memories'' e) w1))"

definition delete_memory_by_id :: "'c mem0_api \<Rightarrow> string \<Rightarrow> 'c world \<Rightarrow> bool \<times> 'c world" where
  "delete_memory_by_id api memory_id w =
     (case request (Delete (PStr memory_id)) (mem_delete api (PStr memory_id))
             (print (LineS ''Deleting memory with ID'' memory_id) w) of
        (Inr u, w1) \<Rightarrow> (True, print (Line ''Memory deleted successfully'') w1)
      | (Inl e, w1) \<Rightarrow> (False, print (LineSE ''Error deleting memory'' memory_id e) w1))"

definition delete_user_memories :: "'c mem0_api \<Rightarrow> string \<Rightarrow> 'c world \<Rightarrow> bool \<times> 'c world" where
  "delete_user_memories api user_id w =
     (case request (DeleteAll (Some user_id) None None) (mem_delete_all api (Some user_id) None None)
             (print (LineS ''Deleting all memories for user'' user_id) w) of
        (Inr u, w1) \<Rightarrow> (True, print (Line ''All user memories deleted successfully'') w1)
      | (Inl e, w1) \<Rightarrow> (False, print (LineE ''Error deleting user memories'' e) w1))"

definition delete_agent_memories :: "'c mem0_api \<Rightarrow> string \<Rightarrow> 'c world \<Rightarrow> bool \<times> 'c world" where
  "delete_agent_memories api agent_id w =
     (case request (DeleteAll None (Some agent_id) None) (mem_delete_all api None (Some agent_id) None)
             (print (LineS ''Deleting all memories for agent'' agent_id) w) of
        (Inr u, w1) \<Rightarrow> (True, print (Line ''All agent memories deleted successfully'') w1)
      | (Inl e, w1) \<Rightarrow> (False, print (LineE ''Error deleting agent memories'' e) w1))"

definition delete_run_memories :: "'c mem0_api \<Rightarrow> string \<Rightarrow> 'c world \<Rightarrow> bool \<times> 'c world" where
  "delete_run_memories api run_id w =
     (case request (DeleteAll None None (Some run_id)) (mem_delete_all api None None (Some run_id))
             (print (LineS ''Deleting all memories for run'' run_id) w) of
        (Inr u, w1) \<Rightarrow> (True, print (Line ''All run memories deleted successfully'') w1)
      | (Inl e, w1) \<Rightarrow> (False, print (LineE ''Error deleting run memories'' e) w1))"

text \<open>
  Lines 318 to 326: the deletion loop of \<open>safe_delete_all_memories\<close>. The loop state is
  \<open>deleted_count\<close> and the binding of the local \<open>memory_id\<close> (\<open>None\<close> while it is
  unbound): the handler of the inner \<open>try\<close> prints \<open>memory_id\<close>, which is the value of an
  earlier iteration, or unbound, when \<open>memory.get\<close> itself raised.
\<close>

fun delete_loop ::
  "'c mem0_api \<Rightarrow> pyval list \<Rightarrow> nat \<Rightarrow> pyval option \<Rightarrow> 'c world \<Rightarrow> (exn + nat) \<times> 'c world" where
  "delete_loop api [] deleted_count bound w = (Inr deleted_count, w)"
| "delete_loop api (memory # rest) deleted_count bound w =
     (case py_get memory ''id'' PNone of
        Inl e \<Rightarrow>
          (case bound of
             None \<Rightarrow> (Inl (UnboundLocalError ''memory_id''), w)
           | Some v \<Rightarrow>
               delete_loop api rest deleted_count bound
                 (print (LineVE ''Could not delete memory'' v e) w))
      | Inr memory_id \<Rightarrow>
          if py_truthy memory_id then
            (case request (Delete memory_id) (mem_delete api memory_id) w of
               (Inr u, w1) \<Rightarrow> delete_loop api rest (deleted_count + 1) (Some memory_id) w1
             | (Inl e, w1) \<Rightarrow>
                 delete_loop api rest deleted_count (Some memory_id)
                   (print (LineVE ''Could not delete memory'' memory_id e) w1))
          else delete_loop api rest deleted_count (Some memory_id) w)"

text \<open>\<open>safe_delete_all_memories\<close>: the body of the outer \<open>try\<close>, then its handler.\<close>

definition safe_delete_all_memories_try ::
  "'c mem0_api \<Rightarrow> 'c world \<Rightarrow> (exn + bool) \<times> 'c world" where
  "safe_delete_all_memories_try api w =
     (let w1 = print (Line ''This deletes memory data but preserves database structure'')
                 (print (Line ''Safely deleting all mem0 memories...'') w)
      in
      case request (GetAll (Some DEFAULT_USER_ID) None None)
             (mem_get_all api (Some DEFAULT_USER_ID) None None) w1 of
        (Inl e, w2) \<Rightarrow> (Inl e, w2)
      | (Inr all_memories, w2) \<Rightarrow>
          let memories_list = response_memories all_memories in
          if \<not> py_truthy memories_list then
            (Inr True, print (Line ''No memories found to delete'') w2)
          else
            (case py_len memories_list of
               Inl e \<Rightarrow> (Inl e, w2)
             | Inr n \<Rightarrow>
                 (case input ''Type DELETE to proceed: ''
                         (print (LineN ''Found memories to delete'' (int n)) w2) of
                    (Inl e, w3) \<Rightarrow> (Inl e, w3)
                  | (Inr confirmation, w3) \<Rightarrow>
                      if confirmation \<noteq> ''DELETE'' then
                        (Inr False, print (Line ''Operation cancelled'') w3)
                      else
                        (case py_iter memories_list of
                           Inl e \<Rightarrow> (Inl e, w3)
                         | Inr items \<Rightarrow>
                             (case delete_loop api items 0 None w3 of
                                (Inl e, w4) \<Rightarrow> (Inl e, w4)
                              | (Inr deleted_count, w4) \<Rightarrow>
                                  (Inr True,
                                   print (LineN ''Successfully deleted memories''
                                            (int deleted_count)) w4))))))"

definition safe_delete_all_memories :: "'c mem0_api \<Rightarrow> 'c world \<Rightarrow> bool \<times> 'c world" where
  "safe_delete_all_memories api w =
     (case safe_delete_all_memories_try api w of
        (Inr b, w1) \<Rightarrow> (b, w1)
      | (Inl e, w1) \<Rightarrow> (False, print (LineE ''Error deleting memories'' e) w1))"

text \<open>
  \<open>interactive_mode\<close>: the banner, then the menu loop of lines 340 to 386. Each turn reads
  the choice from standard input; at end of input, \<open>input\<close> raises EOFError, which nothing
  here handles.
\<close>

function interactive_loop :: "'c mem0_api \<Rightarrow> 'c world \<Rightarrow> unit ending \<times> 'c world" where
  "interactive_loop api w =
     (case input ''Enter your choice (1-9): ''
             (fold (\<lambda>t. print (Line t))
                [''Available actions:'',
                 ''1. List all memories'',
                 ''2. List memories by user ID'',
                 ''3. List memories by agent ID'',
                 ''4. Delete specific memory by ID'',
                 ''5. Delete all memories for a user'',
                 ''6. Delete all memories for an agent'',
                 ''7. Delete all memories for a run'',
                 ''8. Safe delete all memories (recommended)'',
                 ''9. Exit''] w) of
        (Inl e, w1) \<Rightarrow> (Raise e, w1)
      | (Inr line, w1) \<Rightarrow>
          let choice = py_strip line in
          if choice = ''1'' then
            interactive_loop api (snd (list_memories api None None None w1))
          else if choice = ''2'' then
            (case input ''Enter user ID: '' w1 of
               (Inl e, w2) \<Rightarrow> (Raise e, w2)
             | (Inr l, w2) \<Rightarrow>
                 if py_strip l \<noteq> []
                 then interactive_loop api (snd (list_memories api (Some (py_strip l)) None None w2))
                 else interactive_loop api w2)
          else if choice = ''3'' then
            (case input ''Enter agent ID: '' w1 of
               (Inl e, w2) \<Rightarrow> (Raise e, w2)
             | (Inr l, w2) \<Rightarrow>
                 if py_strip l \<noteq> []
                 then interactive_loop api (snd (list_memories api None (Some (py_strip l)) None w2))
                 else interactive_loop api w2)
          else if choice = ''4'' then
            (case input ''Enter memory ID: '' w1 of
               (Inl e, w2) \<Rightarrow> (Raise e, w2)
             | (Inr l, w2) \<Rightarrow>
                 if py_strip l \<noteq> []
                 then interactive_loop api (snd (delete_memory_by_id api (py_strip l) w2))
                 else interactive_loop api w2)
          else if choice = ''5'' then
            (case input ''Enter user ID: '' w1 of
               (Inl e, w2) \<Rightarrow> (Raise e, w2)
             | (Inr l, w2) \<Rightarrow>
                 if py_strip l \<noteq> []
                 then interactive_loop api (snd (delete_user_memories api (py_strip l) w2))
                 else interactive_loop api w2)
          else if choice = ''6'' then
            (case input ''Enter agent ID: '' w1 of
               (Inl e, w2) \<Rightarrow> (Raise e, w2)
             | (Inr l, w2) \<Rightarrow>
                 if py_strip l \<noteq> []
                 then interactive_loop api (snd (delete_agent_memories api (py_strip l) w2))
                 else interactive_loop api w2)
          else if choice = ''7'' then
            (case input ''Enter run ID: '' w1 of
               (Inl e, w2) \<Rightarrow> (Raise e, w2)
             | (Inr l, w2) \<Rightarrow>
                 if py_strip l \<noteq> []
                 then interactive_loop api (snd (delete_run_memories api (py_strip l) w2))
                 else interactive_loop api w2)
          else if choice = ''8'' then
            interactive_loop api (snd (safe_delete_all_memories api w1))
          else if choice = ''9'' then (Return (), print (Line ''Goodbye!'') w1)
          else interactive_loop api (print (Line ''Invalid choice. Please try again.'') w1))"
  by pat_completeness auto

definition interactive_mode :: "'c mem0_api \<Rightarrow> 'c world \<Rightarrow> unit ending \<times> 'c world" where
  "interactive_mode api w =
     interactive_loop api (print (Line ''mem0 Interactive Memory Manager'') w)"

subsection \<open>The command line (lines 389 to 474)\<close>

text \<open>The result of \<open>parser.parse_args()\<close>: the flags, and the options with \<open>None\<close> when absent.\<close>

record args =
  arg_database_url :: "string option"
  arg_interactive :: bool
  arg_list_all :: bool
  arg_list_memories :: bool
  arg_delete_memory :: bool
  arg_delete_user_memories :: bool
  arg_delete_agent_memories :: bool
  arg_delete_run_memories :: bool
  arg_safe_delete_all :: bool
  arg_user_id :: "string option"
  arg_agent_id :: "string option"
  arg_run_id :: "string option"
  arg_memory_id :: "string option"

text \<open>
  The commands of \<open>main\<close> after the manager is built (lines 440 to 474): one chain of
  \<open>if\<close> and \<open>elif\<close>, so the first flag of the chain that is set decides the action.
\<close>

definition execute_commands :: "'c mem0_api \<Rightarrow> args \<Rightarrow> 'c world \<Rightarrow> unit ending \<times> 'c world" where
  "execute_commands api a w =
     (if arg_interactive a then interactive_mode api w
      else if arg_list_all a \<or> arg_list_memories a then
        (Return (), snd (list_memories api (arg_user_id a) (arg_agent_id a) (arg_run_id a) w))
      else if arg_delete_memory a then
        (if \<not> opt_truthy (arg_memory_id a) then
           (Exit 1, print (Line ''Error: --memory-id is required for --delete-memory'') w)
         else (Return (), snd (delete_memory_by_id api (opt_or (arg_memory_id a) []) w)))
      else if arg_delete_user_memories a then
        (if \<not> opt_truthy (arg_user_id a) then
           (Exit 1, print (Line ''Error: --user-id is required for --delete-user-memories'') w)
         else (Return (), snd (delete_user_memories api (opt_or (arg_user_id a) []) w)))
      else if arg_delete_agent_memories a then
        (if \<not> opt_truthy (arg_agent_id a) then
           (Exit 1, print (Line ''Error: --agent-id is required for --delete-agent-memories'') w)
         else (Return (), snd (delete_agent_memories api (opt_or (arg_agent_id a) []) w)))
      else if arg_delete_run_memories a then
        (if \<not> opt_truthy (arg_run_id a) then
           (Exit 1, print (Line ''Error: --run-id is required for --delete-run-memories'') w)
         else (Return (), snd (delete_run_memories api (opt_or (arg_run_id a) []) w)))
      else if arg_safe_delete_all a then
        (Return (), snd (safe_delete_all_memories api w))
      else (Return (), print (Line ''Use --help for usage information'') w))"

definition main :: "'c mem0_api \<Rightarrow> args \<Rightarrow> 'c world \<Rightarrow> unit ending \<times> 'c world" where
  "main api a w =
     (case MemoryManager_init api (arg_database_url a) w of
        (Return u, w1) \<Rightarrow> execute_commands api a w1
      | (Exit n, w1) \<Rightarrow> (Exit n, w1)
      | (Raise e, w1) \<Rightarrow> (Raise e, w1))"

section \<open>The vector-database manager (scripts/qdrant_manager.py)\<close>

text \<open>
  \<open>int(s)\<close> on a string: surrounding whitespace, an optional sign, then decimal digits,
  where single underscores may separate digits; ValueError otherwise. (Python also reads
  the decimal digits of other scripts; strings here are ASCII.)
\<close>

definition is_digit :: "char \<Rightarrow> bool" where
  "is_digit c = (c \<in> set ''0123456789'')"

fun digits_ok :: "string \<Rightarrow> bool" where
  "digits_ok [] = False"
| "digits_ok [c] = is_digit c"
| "digits_ok (c # d # cs) =
     (is_digit c \<and> (if d = CHR ''_'' then digits_ok cs else digits_ok (d # cs)))"

definition digits_value :: "string \<Rightarrow> int" where
  "digits_value s =
     fold (\<lambda>c n. if c = CHR ''_'' then n else 10 * n + (int (of_char c) - 48)) s 0"

definition py_int :: "string \<Rightarrow> exn + int" where
  "py_int s =
     (let t = py_strip s;
          negative = (t \<noteq> [] \<and> hd t = CHR ''-'');
          body = (if t \<noteq> [] \<and> (hd t = CHR ''-'' \<or> hd t = CHR ''+'') then tl t else t)
      in if digits_ok body
         then Inr (if negative then - digits_value body else digits_value body)
         else Inl (ValueError ''invalid literal for int() with base 10''))"

text \<open>\<open>s.lower()\<close>: the ASCII capitals become small letters; other characters stay.\<close>

definition lower_char :: "char \<Rightarrow> char" where
  "lower_char c =
     (case map_of (zip ''ABCDEFGHIJKLMNOPQRSTUVWXYZ'' ''abcdefghijklmnopqrstuvwxyz'') c of
        Some l \<Rightarrow> l
      | None \<Rightarrow> c)"

definition py_lower :: "string \<Rightarrow> string" where
  "py_lower s = map lower_char s"

text \<open>
  \<open>load_env_config\<close> (lines 33 to 56). \<open>dotenv\<close> is the first \<open>.env\<close> file that exists
  among the three candidate paths, with the assignments it holds; loading it with
  \<open>override=True\<close> writes each into the environment, a later assignment over an earlier.
\<close>

record qconfig =
  cfg_url :: "string option"
  cfg_api_key :: "string option"
  cfg_collection_name :: string
  cfg_embedding_dims :: int
  cfg_llm_provider :: string

definition load_env_config ::
  "(string \<times> (string \<times> string) list) option \<Rightarrow> 'c world \<Rightarrow> (exn + qconfig) \<times> 'c world" where
  "load_env_config dotenv w =
     (let w1 =
        (case dotenv of
           Some (env_path, assignments) \<Rightarrow>
             print (LineS ''Loaded environment from'' env_path)
               (w\<lparr>environ := fold (\<lambda>kv e. e(fst kv \<mapsto> snd kv)) assignments (environ w)\<rparr>)
         | None \<Rightarrow> print (Line ''Warning: No .env file found'') w);
          env = environ w1
      in
      case py_int (getenv_default env ''EMBEDDING_DIMS'' ''1536'') of
        Inl e \<Rightarrow> (Inl e, w1)
      | Inr dims \<Rightarrow>
          (Inr \<lparr>cfg_url = env ''QDRANT_URL'',
                cfg_api_key = env ''QDRANT_API_KEY'',
                cfg_collection_name = getenv_default env ''QDRANT_COLLECTION_NAME'' ''mem0_memories'',
                cfg_embedding_dims = dims,
                cfg_llm_provider = getenv_default env ''LLM_PROVIDER'' ''github_copilot''\<rparr>,
           w1))"

text \<open>
  \<open>get_qdrant_client\<close> (lines 58 to 66): building the client object sends nothing to the
  database; only the check of the two settings can fail.
\<close>

definition get_qdrant_client :: "qconfig \<Rightarrow> exn + unit" where
  "get_qdrant_client config =
     (if \<not> opt_truthy (cfg_url config) \<or> \<not> opt_truthy (cfg_api_key config)
      then Inl (ValueError ''QDRANT_URL and QDRANT_API_KEY must be set in environment'')
      else Inr ())"

definition get_embedding_dimensions :: "string \<Rightarrow> int" where
  "get_embedding_dimensions llm_provider =
     (if llm_provider \<in> set [''openai'', ''github_copilot''] then 1536
      else if llm_provider = ''ollama'' then 768
      else 1536)"

text \<open>
  The operations of the vector-database client. \<open>q_get_collections\<close> gives the names of
  the collections; \<open>q_scroll\<close> gives the first component of \<open>client.scroll\<close>, the points of
  the page.
\<close>

record point =
  point_id :: pyval
  payload :: pyval

record 'c qdrant_api =
  q_get_collections :: "'c \<Rightarrow> (exn + string list) \<times> 'c"
  q_delete_collection :: "string \<Rightarrow> 'c \<Rightarrow> (exn + unit) \<times> 'c"
  q_create_collection :: "string \<Rightarrow> int \<Rightarrow> distance \<Rightarrow> 'c \<Rightarrow> (exn + unit) \<times> 'c"
  q_scroll :: "string \<Rightarrow> int \<Rightarrow> 'c \<Rightarrow> (exn + point list) \<times> 'c"
  q_delete :: "string \<Rightarrow> pyval list \<Rightarrow> 'c \<Rightarrow> (exn + unit) \<times> 'c"

record cli_args =
  arg_collection_name :: "string option"
  arg_force :: bool

text \<open>\<open>create_collection\<close>: lines 98 to 111, where both paths of line 90 meet.\<close>

definition create_and_report ::
  "'c qdrant_api \<Rightarrow> string \<Rightarrow> int \<Rightarrow> string \<Rightarrow> 'c world \<Rightarrow> (exn + unit) \<times> 'c world" where
  "create_and_report api collection_name embedding_dims llm_provider w =
     (case request (CreateCollection collection_name embedding_dims COSINE)
             (q_create_collection api collection_name embedding_dims COSINE)
             (print (LineSN ''Creating collection with dimensions'' collection_name embedding_dims) w) of
        (Inl e, w1) \<Rightarrow> (Inl e, w1)
      | (Inr u, w1) \<Rightarrow>
          (Inr (),
           print (LineS ''   - Provider'' llm_provider)
             (print (Line ''   - Distance: COSINE'')
               (print (LineN ''   - Dimensions'' embedding_dims)
                 (print (LineS ''Collection created successfully!'' collection_name) w1)))))"

text \<open>The body of the \<open>try\<close> (lines 86 to 111).\<close>

definition create_collection_try ::
  "'c qdrant_api \<Rightarrow> bool \<Rightarrow> string \<Rightarrow> int \<Rightarrow> string \<Rightarrow> 'c world \<Rightarrow> (exn + unit) \<times> 'c world" where
  "create_collection_try api force collection_name embedding_dims llm_provider w =
     (case request GetCollections (q_get_collections api) w of
        (Inl e, w1) \<Rightarrow> (Inl e, w1)
      | (Inr collections, w1) \<Rightarrow>
          let existing = filter (\<lambda>c. c = collection_name) collections in
          if existing \<noteq> [] then
            (if \<not> force then
               (Inr (),
                print (LineS ''Collection already exists. Use --force to recreate.''
                         collection_name) w1)
             else
               (case request (DeleteCollection collection_name)
                       (q_delete_collection api collection_name)
                       (print (LineS ''Deleting existing collection'' collection_name) w1) of
                  (Inl e, w2) \<Rightarrow> (Inl e, w2)
                | (Inr u, w2) \<Rightarrow>
                    create_and_report api collection_name embedding_dims llm_provider w2))
          else create_and_report api collection_name embedding_dims llm_provider w1)"

definition create_collection ::
  "(string \<times> (string \<times> string) list) option \<Rightarrow> 'c qdrant_api \<Rightarrow> cli_args \<Rightarrow> 'c world
     \<Rightarrow> unit ending \<times> 'c world" where
  "create_collection dotenv api a w =
     (case load_env_config dotenv w of
        (Inl e, w1) \<Rightarrow> (Raise e, w1)
      | (Inr config, w1) \<Rightarrow>
          (case get_qdrant_client config of
             Inl e \<Rightarrow> (Raise e, w1)
           | Inr client \<Rightarrow>
               let collection_name = opt_or (arg_collection_name a) (cfg_collection_name config);
                   embedding_dims = get_embedding_dimensions (cfg_llm_provider config)
               in
               (case create_collection_try api (arg_force a) collection_name embedding_dims
                       (cfg_llm_provider config) w1 of
                  (Inr u, w2) \<Rightarrow> (Return (), w2)
                | (Inl e, w2) \<Rightarrow> (Return (), print (LineE ''Error creating collection'' e) w2))))"

text \<open>\<open>delete_collection\<close> (lines 145 to 165).\<close>

definition delete_collection_try ::
  "'c qdrant_api \<Rightarrow> string \<Rightarrow> 'c world \<Rightarrow> unit ending \<times> 'c world" where
  "delete_collection_try api collection_name w =
     (case request (DeleteCollection collection_name) (q_delete_collection api collection_name) w of
        (Inr u, w1) \<Rightarrow> (Return (), print (LineS ''Collection deleted successfully!'' collection_name) w1)
      | (Inl e, w1) \<Rightarrow> (Return (), print (LineE ''Error deleting collection'' e) w1))"

definition delete_collection ::
  "(string \<times> (string \<times> string) list) option \<Rightarrow> 'c qdrant_api \<Rightarrow> cli_args \<Rightarrow> 'c world
     \<Rightarrow> unit ending \<times> 'c world" where
  "delete_collection dotenv api a w =
     (if \<not> opt_truthy (arg_collection_name a) then
        (Return (), print (Line ''Collection name is required for deletion'') w)
      else
        let collection_name = opt_or (arg_collection_name a) [] in
        (case load_env_config dotenv w of
           (Inl e, w1) \<Rightarrow> (Raise e, w1)
         | (Inr config, w1) \<Rightarrow>
             (case get_qdrant_client config of
                Inl e \<Rightarrow> (Raise e, w1)
              | Inr client \<Rightarrow>
                  if \<not> arg_force a then
                    (case input (''Are you sure you want to delete collection '' @ collection_name @
                                 ''? (y/N): '') w1 of
                       (Inl e, w2) \<Rightarrow> (Raise e, w2)
                     | (Inr confirm, w2) \<Rightarrow>
                         if py_lower confirm \<noteq> ''y''
                         then (Return (), print (Line ''Operation cancelled.'') w2)
                         else delete_collection_try api collection_name w2)
                  else delete_collection_try api collection_name w1)))"

text \<open>\<open>clear_collection\<close> (lines 213 to 236): the body of the \<open>try\<close> and its handler.\<close>

definition clear_collection_try ::
  "'c qdrant_api \<Rightarrow> string \<Rightarrow> 'c world \<Rightarrow> unit ending \<times> 'c world" where
  "clear_collection_try api collection_name w =
     (case request (Scroll collection_name 10000) (q_scroll api collection_name 10000) w of
        (Inl e, w1) \<Rightarrow> (Return (), print (LineE ''Error clearing collection'' e) w1)
      | (Inr points, w1) \<Rightarrow>
          if points \<noteq> [] then
            let point_ids = map point_id points in
            (case request (DeletePoints collection_name point_ids)
                    (q_delete api collection_name point_ids) w1 of
               (Inl e, w2) \<Rightarrow> (Return (), print (LineE ''Error clearing collection'' e) w2)
             | (Inr u, w2) \<Rightarrow>
                 (Return (),
                  print (LineSN ''Cleared vectors from collection'' collection_name
                           (int (length point_ids))) w2))
          else (Return (), print (LineS ''Collection is already empty'' collection_name) w1))"

definition clear_collection ::
  "(string \<times> (string \<times> string) list) option \<Rightarrow> 'c qdrant_api \<Rightarrow> cli_args \<Rightarrow> 'c world
     \<Rightarrow> unit ending \<times> 'c world" where
  "clear_collection dotenv api a w =
     (case (if opt_truthy (arg_collection_name a)
            then (Inr (opt_or (arg_collection_name a) []), w)
            else (case load_env_config dotenv w of
                    (Inl e, w0) \<Rightarrow> (Inl e, w0)
                  | (Inr config0, w0) \<Rightarrow> (Inr (cfg_collection_name config0), w0))) of
        (Inl e, w0) \<Rightarrow> (Raise e, w0)
      | (Inr collection_name, w0) \<Rightarrow>
          (case load_env_config dotenv w0 of
             (Inl e, w1) \<Rightarrow> (Raise e, w1)
           | (Inr config, w1) \<Rightarrow>
               (case get_qdrant_client config of
                  Inl e \<Rightarrow> (Raise e, w1)
                | Inr client \<Rightarrow>
                    if \<not> arg_force a then
                      (case input (''Are you sure you want to clear all vectors from '' @ collection_name @
                                   ''? (y/N): '') w1 of
                         (Inl e, w2) \<Rightarrow> (Raise e, w2)
                       | (Inr confirm, w2) \<Rightarrow>
                           if py_lower confirm \<noteq> ''y''
                           then (Return (), print (Line ''Operation cancelled.'') w2)
                           else clear_collection_try api collection_name w2)
                    else clear_collection_try api collection_name w1)))"

section \<open>Notions used in the statements, and test doubles\<close>

text \<open>
  The user identifier that \<open>list_memories\<close> sends to the client (lines 212 and 213), a record
  with a usable \<open>id\<close> and that identifier, and the record whose \<open>memory\<close> text the listing
  loop can slice and print.
\<close>

definition effective_user_id ::
  "string option \<Rightarrow> string option \<Rightarrow> string option \<Rightarrow> string option" where
  "effective_user_id user_id agent_id run_id =
     (if \<not> opt_truthy user_id \<and> \<not> opt_truthy agent_id \<and> \<not> opt_truthy run_id
      then Some DEFAULT_USER_ID else user_id)"

definition has_id :: "pyval \<Rightarrow> bool" where
  "has_id memory = (case py_get memory ''id'' PNone of Inr v \<Rightarrow> py_truthy v | Inl e \<Rightarrow> False)"

definition id_of :: "pyval \<Rightarrow> pyval" where
  "id_of memory = (case py_get memory ''id'' PNone of Inr v \<Rightarrow> v | Inl e \<Rightarrow> PNone)"

definition printable_memory :: "pyval \<Rightarrow> bool" where
  "printable_memory memory =
     returned (bind_exn (py_get memory ''memory'' (PStr ''N/A'')) (py_slice_to 100))"

text \<open>\<open>isinstance(x, list)\<close>, and a dictionary that has the key \<open>results\<close>.\<close>

fun is_list :: "pyval \<Rightarrow> bool" where
  "is_list (PList xs) = True"
| "is_list _ = False"

fun has_results :: "pyval \<Rightarrow> bool" where
  "has_results (PDict kvs) = (map_of kvs ''results'' \<noteq> None)"
| "has_results _ = False"

text \<open>
  The responses of \<open>get_all\<close> as the client's interface has them: when the response is a
  dictionary with the key \<open>results\<close>, the value under that key is a list.
\<close>

fun results_is_list :: "pyval \<Rightarrow> bool" where
  "results_is_list (PDict kvs) =
     (case map_of kvs ''results'' of Some v \<Rightarrow> is_list v | None \<Rightarrow> True)"
| "results_is_list _ = True"

text \<open>
  A world at the start of a run, and stand-ins for the two external services. The memory
  service holds a list of records and refuses to delete the identifiers it is told to fail
  on. The vector database holds collection names and points, and its bulk delete fails
  when the request names a point it is told to fail on.
\<close>

definition world0 :: "'c \<Rightarrow> string list \<Rightarrow> environ \<Rightarrow> 'c world" where
  "world0 s lines env = \<lparr>service = s, calls = [], out = [], stdin = lines, environ = env\<rparr>"

definition mock_mem0 :: "pyval list \<Rightarrow> pyval list mem0_api" where
  "mock_mem0 failing =
     \<lparr>mem_from_config = (\<lambda>config env s. (Inr (), s)),
      mem_get_all = (\<lambda>u a r s. (Inr (PDict [(''results'', PList s)]), s)),
      mem_delete = (\<lambda>memory_id s.
         if memory_id \<in> set failing then (Inl (ClientError ''delete failed''), s)
         else (Inr (), filter (\<lambda>m. py_get m ''id'' PNone \<noteq> Inr memory_id) s)),
      mem_delete_all = (\<lambda>u a r s. (Inr (), []))\<rparr>"

record qstore =
  q_collections :: "string list"
  q_points :: "point list"

definition mock_qdrant :: "pyval list \<Rightarrow> qstore qdrant_api" where
  "mock_qdrant failing =
     \<lparr>q_get_collections = (\<lambda>s. (Inr (q_collections s), s)),
      q_delete_collection = (\<lambda>name s.
         (Inr (), s\<lparr>q_collections := removeAll name (q_collections s)\<rparr>)),
      q_create_collection = (\<lambda>name size metric s.
         (Inr (), s\<lparr>q_collections := q_collections s @ [name]\<rparr>)),
      q_scroll = (\<lambda>name limit s. (Inr (take (nat limit) (q_points s)), s)),
      q_delete = (\<lambda>name ids s.
         if list_ex (\<lambda>i. i \<in> set failing) ids then (Inl (ClientError ''delete failed''), s)
         else (Inr (), s\<lparr>q_points := filter (\<lambda>p. point_id p \<notin> set ids) (q_points s)\<rparr>))\<rparr>"

definition qdrant_env :: environ where
  "qdrant_env = [''QDRANT_URL'' \<mapsto> ''https://example.qdrant.io'', ''QDRANT_API_KEY'' \<mapsto> ''secret'']"

definition three_points :: "point list" where
  "three_points =
     [\<lparr>point_id = PInt 1, payload = PNone\<rparr>,
      \<lparr>point_id = PInt 2, payload = PNone\<rparr>,
      \<lparr>point_id = PInt 3, payload = PNone\<rparr>]"

text \<open>
  The message that the command chain of \<open>main\<close> prints when the action it selects is a
  delete action whose identifier is missing or empty; \<open>None\<close> when the selected action is
  another one. The chain selects the first of \<open>--interactive\<close>, \<open>--list-all\<close> or
  \<open>--list-memories\<close>, \<open>--delete-memory\<close>, \<open>--delete-user-memories\<close>,
  \<open>--delete-agent-memories\<close>, \<open>--delete-run-memories\<close> that is set.
\<close>

definition required_error :: "args \<Rightarrow> string option" where
  "required_error a =
     (if arg_interactive a \<or> arg_list_all a \<or> arg_list_memories a then None
      else if arg_delete_memory a then
        (if \<not> opt_truthy (arg_memory_id a)
         then Some ''Error: --memory-id is required for --delete-memory'' else None)
      else if arg_delete_user_memories a then
        (if \<not> opt_truthy (arg_user_id a)
         then Some ''Error: --user-id is required for --delete-user-memories'' else None)
      else if arg_delete_agent_memories a then
        (if \<not> opt_truthy (arg_agent_id a)
         then Some ''Error: --agent-id is required for --delete-agent-memories'' else None)
      else if arg_delete_run_memories a then
        (if \<not> opt_truthy (arg_run_id a)
         then Some ''Error: --run-id is required for --delete-run-memories'' else None)
      else None)"

text \<open>A command line with no flag and no option, and three stored memories.\<close>

definition no_args :: args where
  "no_args =
     \<lparr>arg_database_url = None, arg_interactive = False, arg_list_all = False,
      arg_list_memories = False, arg_delete_memory = False, arg_delete_user_memories = False,
      arg_delete_agent_memories = False, arg_delete_run_memories = False,
      arg_safe_delete_all = False, arg_user_id = None, arg_agent_id = None, arg_run_id = None,
      arg_memory_id = None\<rparr>"

definition three_memories :: "pyval list" where
  "three_memories =
     [PDict [(''id'', PStr ''m1'')], PDict [(''id'', PStr ''m2'')], PDict [(''id'', PStr ''m3'')]]"

section \<open>Termination of the menu loop\<close>

text \<open>
  Every turn of \<open>interactive_loop\<close> reads a line, and no operation of the manager puts
  lines back: the number of lines left on standard input decreases.
\<close>

lemma stdin_print: "stdin (print m w) = stdin w"
  by (simp add: print_def)

lemma stdin_request: "stdin (snd (request c f w)) = stdin w"
  by (simp add: request_def split: prod.splits)

lemma stdin_request_eq: "request c f w = (r, w1) \<Longrightarrow> stdin w1 = stdin w"
  using stdin_request [of c f w] by simp

lemma stdin_input: "input p w = (r, w1) \<Longrightarrow> length (stdin w1) \<le> length (stdin w)"
  by (auto simp: input_def Let_def stdin_print split: list.splits)

lemma input_line_shorter: "(Inr l, w1) = input p w \<Longrightarrow> length (stdin w1) < length (stdin w)"
  by (auto simp: input_def Let_def stdin_print split: list.splits)

lemma stdin_print_memories: "stdin (snd (print_memories items i w)) = stdin w"
  by (induction items i w rule: print_memories.induct)
     (simp_all add: Let_def stdin_print split: sum.splits)

lemma stdin_print_memories_eq: "print_memories items i w = (r, w1) \<Longrightarrow> stdin w1 = stdin w"
  using stdin_print_memories [of items i w] by simp

lemma stdin_list_response: "stdin (snd (list_response m w)) = stdin w"
  by (auto simp: list_response_def Let_def stdin_print split: prod.splits sum.splits
      dest!: stdin_print_memories_eq)

lemma stdin_list_memories_try: "stdin (snd (list_memories_try api u a r w)) = stdin w"
  by (auto simp: list_memories_try_def Let_def stdin_print stdin_list_response
      split: prod.splits sum.splits dest!: stdin_request_eq)

lemma stdin_list_memories: "stdin (snd (list_memories api u a r w)) = stdin w"
  using stdin_list_memories_try [of api u a r w]
  by (auto simp: list_memories_def stdin_print split: prod.splits sum.splits)

lemma stdin_delete_memory_by_id: "stdin (snd (delete_memory_by_id api m w)) = stdin w"
  by (auto simp: delete_memory_by_id_def stdin_print split: prod.splits sum.splits
      dest!: stdin_request_eq)

lemma stdin_delete_user_memories: "stdin (snd (delete_user_memories api m w)) = stdin w"
  by (auto simp: delete_user_memories_def stdin_print split: prod.splits sum.splits
      dest!: stdin_request_eq)

lemma stdin_delete_agent_memories: "stdin (snd (delete_agent_memories api m w)) = stdin w"
  by (auto simp: delete_agent_memories_def stdin_print split: prod.splits sum.splits
      dest!: stdin_request_eq)

lemma stdin_delete_run_memories: "stdin (snd (delete_run_memories api m w)) = stdin w"
  by (auto simp: delete_run_memories_def stdin_print split: prod.splits sum.splits
      dest!: stdin_request_eq)

lemma stdin_delete_loop: "stdin (snd (delete_loop api items n b w)) = stdin w"
proof (induction items arbitrary: n b w)
  case Nil
  then show ?case by simp
next
  case (Cons memory rest)
  show ?case
    by (auto simp: Cons.IH stdin_print split: sum.splits option.splits prod.splits
        dest!: stdin_request_eq)
qed

lemma stdin_delete_loop_eq: "delete_loop api items n b w = (r, w1) \<Longrightarrow> stdin w1 = stdin w"
  using stdin_delete_loop [of api items n b w] by simp

lemma stdin_safe_delete_all_memories:
  "length (stdin (snd (safe_delete_all_memories api w))) \<le> length (stdin w)"
proof -
  have "length (stdin (snd (safe_delete_all_memories_try api w))) \<le> length (stdin w)"
    by (auto simp: safe_delete_all_memories_try_def Let_def stdin_print
        split: prod.splits sum.splits dest!: stdin_request_eq stdin_delete_loop_eq stdin_input)
  then show ?thesis
    by (auto simp: safe_delete_all_memories_def stdin_print split: prod.splits sum.splits)
qed

termination interactive_loop
  apply (relation "measure (\<lambda>(api, w). length (stdin w))")
  apply (auto simp: stdin_print stdin_list_memories stdin_delete_memory_by_id
      stdin_delete_user_memories stdin_delete_agent_memories stdin_delete_run_memories
      dest!: input_line_shorter
      intro: le_less_trans [OF stdin_safe_delete_all_memories])
  done

section \<open>Properties of the configuration builder\<close>

subsection \<open>The three stages and what they leave in the environment\<close>

lemma getitem_update: "py_getitem (PDict (AList.update k v l)) k = Inr v"
  by (simp add: update_conv')

lemma getitem_update_other:
  "k' \<noteq> k \<Longrightarrow> py_getitem (PDict (AList.update k v l)) k' = py_getitem (PDict l) k'"
  by (simp add: update_conv')

lemma setenv_if_unset_other: "k \<noteq> name \<Longrightarrow> setenv_if_unset env name key k = env k"
  by (simp add: setenv_if_unset_def split: option.splits)

lemma setenv_if_key_other: "k \<noteq> name \<Longrightarrow> setenv_if_key env name key k = env k"
  by (simp add: setenv_if_key_def split: option.splits)

lemma setenv_if_unset_same:
  "setenv_if_unset env name key name =
     (if opt_truthy key \<and> \<not> opt_truthy (env name) then key else env name)"
  by (simp add: setenv_if_unset_def opt_truthy_def split: option.splits)

lemma setenv_if_key_same:
  "setenv_if_key env name key name = (if opt_truthy key then key else env name)"
  by (simp add: setenv_if_key_def opt_truthy_def split: option.splits)

lemma configure_llm_env:
  assumes "configure_llm c env = Inr (c', e)"
      and "k \<noteq> ''OPENAI_API_KEY''" and "k \<noteq> ''OPENROUTER_API_KEY''"
  shows "e k = env k"
  using assms
  by (auto simp: configure_llm_def bind_exn_def Let_def setenv_if_unset_other setenv_if_key_other
      split: if_splits sum.splits)

lemma configure_embedder_env:
  assumes "configure_embedder c env = Inr (c', e)"
      and "k \<noteq> ''OPENAI_API_KEY''"
  shows "e k = env k"
  using assms
  by (auto simp: configure_embedder_def bind_exn_def Let_def setenv_if_unset_other
      split: if_splits sum.splits)

lemma configure_llm_dict: "\<exists>l e. configure_llm (PDict []) env = Inr (PDict l, e)"
  by (simp add: configure_llm_def bind_exn_def Let_def)

lemma configure_embedder_dict: "\<exists>l' e'. configure_embedder (PDict l) env = Inr (PDict l', e')"
  by (simp add: configure_embedder_def bind_exn_def Let_def update_conv')

lemma configure_vector_store_dict:
  "configure_vector_store (PDict l) env =
     Inr (PDict (AList.update ''vector_store''
            (if env ''VECTOR_STORE_PROVIDER'' = Some ''qdrant''
             then qdrant_section env else supabase_section env) l))"
  by (simp add: configure_vector_store_def Let_def getenv_default_def qdrant_section_def
      supabase_section_def split: option.splits)

lemma section_cong:
  assumes "\<And>k. k \<noteq> ''OPENAI_API_KEY'' \<Longrightarrow> k \<noteq> ''OPENROUTER_API_KEY'' \<Longrightarrow> e k = env k"
  shows "qdrant_section e = qdrant_section env" and "supabase_section e = supabase_section env"
  by (simp_all add: qdrant_section_def supabase_section_def getenv_default_def assms)

lemma builder_stages:
  obtains l1 e1 l2 e2 where
    "configure_llm (PDict []) env = Inr (PDict l1, e1)"
    "configure_embedder (PDict l1) e1 = Inr (PDict l2, e2)"
    "get_mem0_client_config env =
       Inr (PDict (AList.update ''vector_store''
              (if e2 ''VECTOR_STORE_PROVIDER'' = Some ''qdrant''
               then qdrant_section e2 else supabase_section e2) l2), e2)"
proof -
  obtain l1 e1 where a: "configure_llm (PDict []) env = Inr (PDict l1, e1)"
    using configure_llm_dict by blast
  obtain l2 e2 where b: "configure_embedder (PDict l1) e1 = Inr (PDict l2, e2)"
    using configure_embedder_dict by blast
  have "get_mem0_client_config env =
       Inr (PDict (AList.update ''vector_store''
              (if e2 ''VECTOR_STORE_PROVIDER'' = Some ''qdrant''
               then qdrant_section e2 else supabase_section e2) l2), e2)"
    by (simp add: get_mem0_client_config_def a b bind_exn_def configure_vector_store_dict)
  with a b that show thesis by blast
qed

lemma builder_env:
  assumes "get_mem0_client_config env = Inr (cfg, e)"
      and "k \<noteq> ''OPENAI_API_KEY''" and "k \<noteq> ''OPENROUTER_API_KEY''"
  shows "e k = env k"
proof -
  obtain l1 e1 l2 e2 where
    a: "configure_llm (PDict []) env = Inr (PDict l1, e1)" and
    b: "configure_embedder (PDict l1) e1 = Inr (PDict l2, e2)" and
    c: "get_mem0_client_config env =
       Inr (PDict (AList.update ''vector_store''
              (if e2 ''VECTOR_STORE_PROVIDER'' = Some ''qdrant''
               then qdrant_section e2 else supabase_section e2) l2), e2)"
    by (rule builder_stages)
  from c assms(1) have "e = e2" by simp
  then show ?thesis
    using configure_llm_env [OF a assms(2,3)] configure_embedder_env [OF b assms(2)] by simp
qed

lemma configure_llm_openai_key:
  assumes "configure_llm c env = Inr (c', e)"
  shows "e ''OPENAI_API_KEY'' =
     (if (env ''LLM_PROVIDER'' = Some ''openai'' \<or> env ''LLM_PROVIDER'' = Some ''openrouter'')
         \<and> opt_truthy (env ''LLM_API_KEY'') \<and> \<not> opt_truthy (env ''OPENAI_API_KEY'')
      then env ''LLM_API_KEY'' else env ''OPENAI_API_KEY'')"
  using assms
  by (auto simp: configure_llm_def bind_exn_def Let_def setenv_if_unset_same setenv_if_key_other
      split: if_splits sum.splits)

lemma configure_llm_openrouter_key:
  assumes "configure_llm c env = Inr (c', e)"
  shows "e ''OPENROUTER_API_KEY'' =
     (if env ''LLM_PROVIDER'' = Some ''openrouter'' \<and> opt_truthy (env ''LLM_API_KEY'')
      then env ''LLM_API_KEY'' else env ''OPENROUTER_API_KEY'')"
  using assms
  by (auto simp: configure_llm_def bind_exn_def Let_def setenv_if_unset_other setenv_if_key_same
      split: if_splits sum.splits)

lemma configure_embedder_openai_key:
  assumes "configure_embedder c env = Inr (c', e)"
  shows "e ''OPENAI_API_KEY'' =
     (if env ''LLM_PROVIDER'' = Some ''openai''
         \<and> opt_truthy (env ''LLM_API_KEY'') \<and> \<not> opt_truthy (env ''OPENAI_API_KEY'')
      then env ''LLM_API_KEY'' else env ''OPENAI_API_KEY'')"
  using assms
  by (auto simp: configure_embedder_def bind_exn_def Let_def setenv_if_unset_same
      split: if_splits sum.splits)

lemma builder_openai_key:
  assumes "get_mem0_client_config env = Inr (cfg, e)"
  shows "e ''OPENAI_API_KEY'' =
     (if (env ''LLM_PROVIDER'' = Some ''openai'' \<or> env ''LLM_PROVIDER'' = Some ''openrouter'')
         \<and> opt_truthy (env ''LLM_API_KEY'') \<and> \<not> opt_truthy (env ''OPENAI_API_KEY'')
      then env ''LLM_API_KEY'' else env ''OPENAI_API_KEY'')"
proof -
  obtain l1 e1 l2 e2 where
    a: "configure_llm (PDict []) env = Inr (PDict l1, e1)" and
    b: "configure_embedder (PDict l1) e1 = Inr (PDict l2, e2)" and
    c: "get_mem0_client_config env =
       Inr (PDict (AList.update ''vector_store''
              (if e2 ''VECTOR_STORE_PROVIDER'' = Some ''qdrant''
               then qdrant_section e2 else supabase_section e2) l2), e2)"
    by (rule builder_stages)
  from c assms have e: "e = e2" by simp
  have p: "e1 ''LLM_PROVIDER'' = env ''LLM_PROVIDER''" and k: "e1 ''LLM_API_KEY'' = env ''LLM_API_KEY''"
    using configure_llm_env [OF a] by simp_all
  show ?thesis
    unfolding e configure_embedder_openai_key [OF b] p k configure_llm_openai_key [OF a]
    by auto
qed

lemma builder_openrouter_key:
  assumes "get_mem0_client_config env = Inr (cfg, e)"
  shows "e ''OPENROUTER_API_KEY'' =
     (if env ''LLM_PROVIDER'' = Some ''openrouter'' \<and> opt_truthy (env ''LLM_API_KEY'')
      then env ''LLM_API_KEY'' else env ''OPENROUTER_API_KEY'')"
proof -
  obtain l1 e1 l2 e2 where
    a: "configure_llm (PDict []) env = Inr (PDict l1, e1)" and
    b: "configure_embedder (PDict l1) e1 = Inr (PDict l2, e2)" and
    c: "get_mem0_client_config env =
       Inr (PDict (AList.update ''vector_store''
              (if e2 ''VECTOR_STORE_PROVIDER'' = Some ''qdrant''
               then qdrant_section e2 else supabase_section e2) l2), e2)"
    by (rule builder_stages)
  from c assms have e: "e = e2" by simp
  have "e2 ''OPENROUTER_API_KEY'' = e1 ''OPENROUTER_API_KEY''"
    by (rule configure_embedder_env [OF b]) simp
  then show ?thesis
    unfolding e using configure_llm_openrouter_key [OF a] by simp
qed

lemma builder_result:
  "\<exists>l e. get_mem0_client_config env =
      Inr (PDict (AList.update ''vector_store'' (vector_store_section env) l), e) \<and>
      (\<exists>l1 e1. configure_llm (PDict []) env = Inr (PDict l1, e1) \<and>
          configure_embedder (PDict l1) e1 = Inr (PDict l, e))"
proof -
  obtain l1 e1 l2 e2 where
    a: "configure_llm (PDict []) env = Inr (PDict l1, e1)" and
    b: "configure_embedder (PDict l1) e1 = Inr (PDict l2, e2)" and
    c: "get_mem0_client_config env =
       Inr (PDict (AList.update ''vector_store''
              (if e2 ''VECTOR_STORE_PROVIDER'' = Some ''qdrant''
               then qdrant_section e2 else supabase_section e2) l2), e2)"
    by (rule builder_stages)
  have same: "\<And>k. k \<noteq> ''OPENAI_API_KEY'' \<Longrightarrow> k \<noteq> ''OPENROUTER_API_KEY'' \<Longrightarrow> e2 k = env k"
    using builder_env [OF c] by blast
  have sel: "e2 ''VECTOR_STORE_PROVIDER'' = env ''VECTOR_STORE_PROVIDER''"
    by (rule same) simp_all
  have q: "qdrant_section e2 = qdrant_section env" and s: "supabase_section e2 = supabase_section env"
    using section_cong [of e2 env] same by blast+
  show ?thesis
    using a b c by (simp add: vector_store_section_def sel q s)
qed

subsection \<open>The configuration for each provider\<close>

lemma llm_stage_openai:
  assumes "env ''LLM_PROVIDER'' = Some ''openai'' \<or> env ''LLM_PROVIDER'' = Some ''openrouter''"
  shows "\<exists>e. configure_llm (PDict []) env =
     Inr (PDict [(''llm'', PDict [(''provider'', PStr ''openai''),
                   (''config'', PDict [(''model'', opt_val (env ''LLM_CHOICE'')),
                                       (''temperature'', PFloat 2 (- 1)),
                                       (''max_tokens'', PInt 2000)])])], e)"
  using assms by (auto simp: configure_llm_def bind_exn_def Let_def)

lemma llm_stage_copilot:
  assumes "env ''LLM_PROVIDER'' = Some ''github_copilot''"
  shows "\<exists>e. configure_llm (PDict []) env =
     Inr (PDict [(''llm'', PDict [(''provider'', PStr ''litellm''),
                   (''config'', PDict [(''model'', PStr (opt_or (env ''LLM_CHOICE'') ''github_copilot/gpt-4o'')),
                                       (''temperature'', PFloat 2 (- 1)),
                                       (''max_tokens'', PInt 2000)])])], e)"
  using assms by (auto simp: configure_llm_def bind_exn_def Let_def)

lemma llm_stage_ollama:
  assumes "env ''LLM_PROVIDER'' = Some ''ollama''"
  shows "\<exists>e. configure_llm (PDict []) env =
     Inr (PDict [(''llm'', PDict [(''provider'', PStr ''ollama''),
                   (''config'', PDict ([(''model'', opt_val (env ''LLM_CHOICE'')),
                                       (''temperature'', PFloat 2 (- 1)),
                                       (''max_tokens'', PInt 2000)] @
                      (if opt_truthy (env ''LLM_BASE_URL'')
                       then [(''ollama_base_url'', opt_val (env ''LLM_BASE_URL''))] else [])))])], e)"
  using assms by (auto simp: configure_llm_def bind_exn_def Let_def)

lemma llm_stage_other:
  assumes "env ''LLM_PROVIDER'' \<noteq> Some ''openai''" "env ''LLM_PROVIDER'' \<noteq> Some ''openrouter''"
    "env ''LLM_PROVIDER'' \<noteq> Some ''github_copilot''" "env ''LLM_PROVIDER'' \<noteq> Some ''ollama''"
  shows "configure_llm (PDict []) env = Inr (PDict [], env)"
  using assms by (auto simp: configure_llm_def bind_exn_def Let_def)

lemma embedder_stage_openai:
  assumes "env ''LLM_PROVIDER'' = Some ''openai''"
  shows "\<exists>e. configure_embedder (PDict l) env =
     Inr (PDict (AList.update ''embedder''
            (PDict [(''provider'', PStr ''openai''),
               (''config'', PDict [(''model'', PStr (opt_or (env ''EMBEDDING_MODEL_CHOICE'') ''text-embedding-3-small'')),
                                   (''embedding_dims'', PInt 1536)])]) l), e)"
  using assms by (auto simp: configure_embedder_def bind_exn_def Let_def)

lemma embedder_stage_copilot:
  assumes "env ''LLM_PROVIDER'' = Some ''github_copilot''"
  shows "\<exists>e. configure_embedder (PDict l) env =
     Inr (PDict (AList.update ''embedder''
            (PDict [(''provider'', PStr ''github_copilot''),
               (''config'', PDict [(''model'', PStr (opt_or (env ''EMBEDDING_MODEL_CHOICE'')
                                                     ''github_copilot/text-embedding-3-small'')),
                                   (''embedding_dims'', PInt 1536)])]) l), e)"
  using assms by (auto simp: configure_embedder_def bind_exn_def Let_def)

lemma embedder_stage_ollama:
  assumes "env ''LLM_PROVIDER'' = Some ''ollama''"
  shows "\<exists>e. configure_embedder (PDict l) env =
     Inr (PDict (AList.update ''embedder''
            (PDict [(''provider'', PStr ''ollama''),
               (''config'', PDict ([(''model'', PStr (opt_or (env ''EMBEDDING_MODEL_CHOICE'') ''nomic-embed-text'')),
                                   (''embedding_dims'', PInt 768)] @
                  (if opt_truthy (env ''LLM_BASE_URL'')
                   then [(''ollama_base_url'', opt_val (env ''LLM_BASE_URL''))] else [])))]) l), e)"
  using assms by (auto simp: configure_embedder_def bind_exn_def Let_def update_conv')

lemma embedder_stage_other:
  assumes "env ''LLM_PROVIDER'' \<noteq> Some ''openai''"
    "env ''LLM_PROVIDER'' \<noteq> Some ''github_copilot''" "env ''LLM_PROVIDER'' \<noteq> Some ''ollama''"
  shows "configure_embedder (PDict l) env = Inr (PDict l, env)"
  using assms by (auto simp: configure_embedder_def bind_exn_def Let_def)

lemma llm_stage_reads:
  assumes "configure_llm c env = Inr (c', e)"
  shows "e ''LLM_PROVIDER'' = env ''LLM_PROVIDER''"
    and "e ''EMBEDDING_MODEL_CHOICE'' = env ''EMBEDDING_MODEL_CHOICE''"
    and "e ''LLM_BASE_URL'' = env ''LLM_BASE_URL''"
  using configure_llm_env [OF assms] by simp_all

lemma config_openai:
  assumes "env ''LLM_PROVIDER'' = Some ''openai''"
  shows "\<exists>e. get_mem0_client_config env =
     Inr (PDict
       [(''llm'', PDict [(''provider'', PStr ''openai''),
           (''config'', PDict [(''model'', opt_val (env ''LLM_CHOICE'')),
                               (''temperature'', PFloat 2 (- 1)),
                               (''max_tokens'', PInt 2000)])]),
        (''embedder'', PDict [(''provider'', PStr ''openai''),
           (''config'', PDict [(''model'', PStr (opt_or (env ''EMBEDDING_MODEL_CHOICE'') ''text-embedding-3-small'')),
                               (''embedding_dims'', PInt 1536)])]),
        (''vector_store'', vector_store_section env)], e)"
proof -
  obtain l e l1 e1 where
    r: "get_mem0_client_config env =
          Inr (PDict (AList.update ''vector_store'' (vector_store_section env) l), e)" and
    a: "configure_llm (PDict []) env = Inr (PDict l1, e1)" and
    b: "configure_embedder (PDict l1) e1 = Inr (PDict l, e)"
    using builder_result [of env] by blast
  note rd = llm_stage_reads [OF a]
  from llm_stage_openai [of env] assms a
  have l1: "l1 = [(''llm'', PDict [(''provider'', PStr ''openai''),
           (''config'', PDict [(''model'', opt_val (env ''LLM_CHOICE'')),
                               (''temperature'', PFloat 2 (- 1)),
                               (''max_tokens'', PInt 2000)])])]"
    by auto
  from embedder_stage_openai [of e1 l1] b assms
  have "l = AList.update ''embedder''
            (PDict [(''provider'', PStr ''openai''),
               (''config'', PDict [(''model'', PStr (opt_or (env ''EMBEDDING_MODEL_CHOICE'') ''text-embedding-3-small'')),
                                   (''embedding_dims'', PInt 1536)])]) l1"
    by (auto simp: rd)
  then show ?thesis unfolding r l1 by simp
qed

lemma config_openrouter:
  assumes "env ''LLM_PROVIDER'' = Some ''openrouter''"
  shows "\<exists>e. get_mem0_client_config env =
     Inr (PDict
       [(''llm'', PDict [(''provider'', PStr ''openai''),
           (''config'', PDict [(''model'', opt_val (env ''LLM_CHOICE'')),
                               (''temperature'', PFloat 2 (- 1)),
                               (''max_tokens'', PInt 2000)])]),
        (''vector_store'', vector_store_section env)], e)"
proof -
  obtain l e l1 e1 where
    r: "get_mem0_client_config env =
          Inr (PDict (AList.update ''vector_store'' (vector_store_section env) l), e)" and
    a: "configure_llm (PDict []) env = Inr (PDict l1, e1)" and
    b: "configure_embedder (PDict l1) e1 = Inr (PDict l, e)"
    using builder_result [of env] by blast
  note rd = llm_stage_reads [OF a]
  from llm_stage_openai [of env] assms a
  have l1: "l1 = [(''llm'', PDict [(''provider'', PStr ''openai''),
           (''config'', PDict [(''model'', opt_val (env ''LLM_CHOICE'')),
                               (''temperature'', PFloat 2 (- 1)),
                               (''max_tokens'', PInt 2000)])])]"
    by auto
  from embedder_stage_other [of e1 l1] b assms
  have "l = l1"
    by (auto simp: rd)
  then show ?thesis unfolding r l1 by simp
qed

lemma config_copilot:
  assumes "env ''LLM_PROVIDER'' = Some ''github_copilot''"
  shows "\<exists>e. get_mem0_client_config env =
     Inr (PDict
       [(''llm'', PDict [(''provider'', PStr ''litellm''),
           (''config'', PDict [(''model'', PStr (opt_or (env ''LLM_CHOICE'') ''github_copilot/gpt-4o'')),
                               (''temperature'', PFloat 2 (- 1)),
                               (''max_tokens'', PInt 2000)])]),
        (''embedder'', PDict [(''provider'', PStr ''github_copilot''),
           (''config'', PDict [(''model'', PStr (opt_or (env ''EMBEDDING_MODEL_CHOICE'')
                                                 ''github_copilot/text-embedding-3-small'')),
                               (''embedding_dims'', PInt 1536)])]),
        (''vector_store'', vector_store_section env)], e)"
proof -
  obtain l e l1 e1 where
    r: "get_mem0_client_config env =
          Inr (PDict (AList.update ''vector_store'' (vector_store_section env) l), e)" and
    a: "configure_llm (PDict []) env = Inr (PDict l1, e1)" and
    b: "configure_embedder (PDict l1) e1 = Inr (PDict l, e)"
    using builder_result [of env] by blast
  note rd = llm_stage_reads [OF a]
  from llm_stage_copilot [of env] assms a
  have l1: "l1 = [(''llm'', PDict [(''provider'', PStr ''litellm''),
           (''config'', PDict [(''model'', PStr (opt_or (env ''LLM_CHOICE'') ''github_copilot/gpt-4o'')),
                               (''temperature'', PFloat 2 (- 1)),
                               (''max_tokens'', PInt 2000)])])]"
    by auto
  from embedder_stage_copilot [of e1 l1] b assms
  have "l = AList.update ''embedder''
            (PDict [(''provider'', PStr ''github_copilot''),
               (''config'', PDict [(''model'', PStr (opt_or (env ''EMBEDDING_MODEL_CHOICE'')
                                                     ''github_copilot/text-embedding-3-small'')),
                                   (''embedding_dims'', PInt 1536)])]) l1"
    by (auto simp: rd)
  then show ?thesis unfolding r l1 by simp
qed

lemma config_ollama:
  assumes "env ''LLM_PROVIDER'' = Some ''ollama''"
  shows "\<exists>e. get_mem0_client_config env =
     Inr (PDict
       [(''llm'', PDict [(''provider'', PStr ''ollama''),
           (''config'', PDict ([(''model'', opt_val (env ''LLM_CHOICE'')),
                               (''temperature'', PFloat 2 (- 1)),
                               (''max_tokens'', PInt 2000)] @
              (if opt_truthy (env ''LLM_BASE_URL'')
               then [(''ollama_base_url'', opt_val (env ''LLM_BASE_URL''))] else [])))]),
        (''embedder'', PDict [(''provider'', PStr ''ollama''),
           (''config'', PDict ([(''model'', PStr (opt_or (env ''EMBEDDING_MODEL_CHOICE'') ''nomic-embed-text'')),
                               (''embedding_dims'', PInt 768)] @
              (if opt_truthy (env ''LLM_BASE_URL'')
               then [(''ollama_base_url'', opt_val (env ''LLM_BASE_URL''))] else [])))]),
        (''vector_store'', vector_store_section env)], e)"
proof -
  obtain l e l1 e1 where
    r: "get_mem0_client_config env =
          Inr (PDict (AList.update ''vector_store'' (vector_store_section env) l), e)" and
    a: "configure_llm (PDict []) env = Inr (PDict l1, e1)" and
    b: "configure_embedder (PDict l1) e1 = Inr (PDict l, e)"
    using builder_result [of env] by blast
  note rd = llm_stage_reads [OF a]
  from llm_stage_ollama [of env] assms a
  have l1: "l1 = [(''llm'', PDict [(''provider'', PStr ''ollama''),
           (''config'', PDict ([(''model'', opt_val (env ''LLM_CHOICE'')),
                               (''temperature'', PFloat 2 (- 1)),
                               (''max_tokens'', PInt 2000)] @
              (if opt_truthy (env ''LLM_BASE_URL'')
               then [(''ollama_base_url'', opt_val (env ''LLM_BASE_URL''))] else [])))])]"
    by auto
  from embedder_stage_ollama [of e1 l1] b assms
  have "l = AList.update ''embedder''
            (PDict [(''provider'', PStr ''ollama''),
               (''config'', PDict ([(''model'', PStr (opt_or (env ''EMBEDDING_MODEL_CHOICE'') ''nomic-embed-text'')),
                                   (''embedding_dims'', PInt 768)] @
                  (if opt_truthy (env ''LLM_BASE_URL'')
                   then [(''ollama_base_url'', opt_val (env ''LLM_BASE_URL''))] else [])))]) l1"
    by (auto simp: rd)
  then show ?thesis unfolding r l1 by simp
qed

lemma config_other:
  assumes "env ''LLM_PROVIDER'' \<noteq> Some ''openai''" "env ''LLM_PROVIDER'' \<noteq> Some ''openrouter''"
    "env ''LLM_PROVIDER'' \<noteq> Some ''github_copilot''" "env ''LLM_PROVIDER'' \<noteq> Some ''ollama''"
  shows "get_mem0_client_config env = Inr (PDict [(''vector_store'', vector_store_section env)], env)"
proof -
  obtain l e l1 e1 where
    r: "get_mem0_client_config env =
          Inr (PDict (AList.update ''vector_store'' (vector_store_section env) l), e)" and
    a: "configure_llm (PDict []) env = Inr (PDict l1, e1)" and
    b: "configure_embedder (PDict l1) e1 = Inr (PDict l, e)"
    using builder_result [of env] by blast
  from llm_stage_other [of env] assms a have l1: "l1 = []" "e1 = env" by auto
  from embedder_stage_other [of env "[]"] b assms have "l = []" "e = env"
    by (auto simp: l1)
  then show ?thesis unfolding r by simp
qed

lemma provider_cases:
  obtains "env ''LLM_PROVIDER'' = Some ''openai''"
  | "env ''LLM_PROVIDER'' = Some ''openrouter''"
  | "env ''LLM_PROVIDER'' = Some ''github_copilot''"
  | "env ''LLM_PROVIDER'' = Some ''ollama''"
  | "env ''LLM_PROVIDER'' \<noteq> Some ''openai''" "env ''LLM_PROVIDER'' \<noteq> Some ''openrouter''"
    "env ''LLM_PROVIDER'' \<noteq> Some ''github_copilot''" "env ''LLM_PROVIDER'' \<noteq> Some ''ollama''"
  by blast

lemmas path_simps = keys_at_def py_keys_def bind_exn_def

subsection \<open>The claims about the builder\<close>

text \<open>
  Claim C1, as amended. For each of the four provider names the language-model section has
  the provider identifier of the source (\<open>openai\<close> for \<open>openai\<close> and \<open>openrouter\<close>,
  \<open>litellm\<close> for \<open>github_copilot\<close>, \<open>ollama\<close> for \<open>ollama\<close>) and the parameter keys
  \<open>model\<close>, \<open>temperature\<close>, \<open>max_tokens\<close> (for \<open>ollama\<close> also \<open>ollama_base_url\<close> when
  \<open>LLM_BASE_URL\<close> is set and not empty). The embedding section carries the dimensionality
  1536 for \<open>openai\<close> and \<open>github_copilot\<close> and 768 for \<open>ollama\<close>. For \<open>openrouter\<close> the
  builder writes no embedding section at all: looking it up is a KeyError.
\<close>

theorem provider_sections:
  "\<exists>cfg env'. get_mem0_client_config env = Inr (cfg, env') \<and>
     (env ''LLM_PROVIDER'' = Some ''openai'' \<or> env ''LLM_PROVIDER'' = Some ''openrouter'' \<longrightarrow>
        py_path cfg [''llm'', ''provider''] = Inr (PStr ''openai'') \<and>
        keys_at cfg [''llm'', ''config''] = Inr [''model'', ''temperature'', ''max_tokens'']) \<and>
     (env ''LLM_PROVIDER'' = Some ''github_copilot'' \<longrightarrow>
        py_path cfg [''llm'', ''provider''] = Inr (PStr ''litellm'') \<and>
        keys_at cfg [''llm'', ''config''] = Inr [''model'', ''temperature'', ''max_tokens'']) \<and>
     (env ''LLM_PROVIDER'' = Some ''ollama'' \<longrightarrow>
        py_path cfg [''llm'', ''provider''] = Inr (PStr ''ollama'') \<and>
        keys_at cfg [''llm'', ''config''] =
          Inr ([''model'', ''temperature'', ''max_tokens''] @
               (if opt_truthy (env ''LLM_BASE_URL'') then [''ollama_base_url''] else []))) \<and>
     (env ''LLM_PROVIDER'' = Some ''openai'' \<or> env ''LLM_PROVIDER'' = Some ''github_copilot'' \<longrightarrow>
        py_path cfg [''embedder'', ''config'', ''embedding_dims''] = Inr (PInt 1536)) \<and>
     (env ''LLM_PROVIDER'' = Some ''ollama'' \<longrightarrow>
        py_path cfg [''embedder'', ''config'', ''embedding_dims''] = Inr (PInt 768)) \<and>
     (env ''LLM_PROVIDER'' = Some ''openrouter'' \<longrightarrow>
        py_getitem cfg ''embedder'' = Inl (KeyError ''embedder''))"
proof (cases rule: provider_cases [of env])
  case 1
  with config_openai [of env] show ?thesis by (auto simp: path_simps)
next
  case 2
  with config_openrouter [of env] show ?thesis by (auto simp: path_simps)
next
  case 3
  with config_copilot [of env] show ?thesis by (auto simp: path_simps)
next
  case 4
  with config_ollama [of env] show ?thesis by (auto simp: path_simps)
next
  case 5
  with config_other [of env] show ?thesis by simp
qed

theorem provider_sections_witness:
  "\<exists>cfg env'. get_mem0_client_config [''LLM_PROVIDER'' \<mapsto> ''ollama''] = Inr (cfg, env') \<and>
     py_path cfg [''llm'', ''provider''] = Inr (PStr ''ollama'') \<and>
     keys_at cfg [''llm'', ''config''] = Inr [''model'', ''temperature'', ''max_tokens''] \<and>
     py_path cfg [''embedder'', ''config'', ''embedding_dims''] = Inr (PInt 768)"
  using provider_sections [of "[''LLM_PROVIDER'' \<mapsto> ''ollama'']"]
  by (auto simp: opt_truthy_def)

text \<open>
  The claim as stated asks for an embedding section for every supported provider name. With
  \<open>LLM_PROVIDER=openrouter\<close> the configuration has none.
\<close>

theorem openrouter_without_embedder_section:
  "\<exists>cfg env'. get_mem0_client_config [''LLM_PROVIDER'' \<mapsto> ''openrouter''] = Inr (cfg, env') \<and>
     py_getitem cfg ''embedder'' = Inl (KeyError ''embedder'')"
  using config_openrouter [of "[''LLM_PROVIDER'' \<mapsto> ''openrouter'']"] by auto

text \<open>
  Claim C4. When \<open>VECTOR_STORE_PROVIDER\<close> is \<open>qdrant\<close>, the vector-store section is the
  qdrant one, with collection name, embedding dimensionality, URL and API key; for every
  other value, and when the variable is unset, it is the supabase one, with connection
  string, collection name and embedding dimensionality. The builder returns for every
  environment.
\<close>

theorem vector_store_section_follows_selector:
  "\<exists>cfg env'. get_mem0_client_config env = Inr (cfg, env') \<and>
     (env ''VECTOR_STORE_PROVIDER'' = Some ''qdrant'' \<longrightarrow>
        py_getitem cfg ''vector_store'' =
          Inr (PDict [(''provider'', PStr ''qdrant''),
                 (''config'', PDict
                    [(''collection_name'',
                        PStr (getenv_default env ''QDRANT_COLLECTION_NAME'' ''mem0_memories'')),
                     (''embedding_model_dims'', PInt (vector_store_dims (env ''LLM_PROVIDER''))),
                     (''url'', opt_val (env ''QDRANT_URL'')),
                     (''api_key'', opt_val (env ''QDRANT_API_KEY''))])])) \<and>
     (env ''VECTOR_STORE_PROVIDER'' \<noteq> Some ''qdrant'' \<longrightarrow>
        py_getitem cfg ''vector_store'' =
          Inr (PDict [(''provider'', PStr ''supabase''),
                 (''config'', PDict
                    [(''connection_string'', PStr (getenv_default env ''DATABASE_URL'' [])),
                     (''collection_name'', PStr ''mem0_memories''),
                     (''embedding_model_dims'', PInt (vector_store_dims (env ''LLM_PROVIDER'')))])]))"
proof -
  obtain l e where
    c: "get_mem0_client_config env =
          Inr (PDict (AList.update ''vector_store'' (vector_store_section env) l), e)"
    using builder_result [of env] by blast
  show ?thesis
    unfolding c
    by (simp add: getitem_update del: py_getitem.simps)
       (simp add: vector_store_section_def qdrant_section_def supabase_section_def)
qed

theorem vector_store_section_follows_selector_witness:
  "\<exists>cfg env'.
     get_mem0_client_config
       [''VECTOR_STORE_PROVIDER'' \<mapsto> ''qdrant'', ''LLM_PROVIDER'' \<mapsto> ''ollama'',
        ''QDRANT_URL'' \<mapsto> ''http://localhost:6333''] = Inr (cfg, env') \<and>
     py_getitem cfg ''vector_store'' =
       Inr (PDict [(''provider'', PStr ''qdrant''),
              (''config'', PDict
                 [(''collection_name'', PStr ''mem0_memories''),
                  (''embedding_model_dims'', PInt 768),
                  (''url'', PStr ''http://localhost:6333''),
                  (''api_key'', PNone)])])"
  using vector_store_section_follows_selector
    [of "[''VECTOR_STORE_PROVIDER'' \<mapsto> ''qdrant'', ''LLM_PROVIDER'' \<mapsto> ''ollama'',
          ''QDRANT_URL'' \<mapsto> ''http://localhost:6333'']"]
  by (auto simp: getenv_default_def vector_store_dims_def opt_val_def)

text \<open>
  Claim C5, as amended. \<open>OPENAI_API_KEY\<close>, when it is set to a non-empty value before the
  call, has the same value after it, whatever the provider and the supplied key; when it is
  unset or empty, the providers \<open>openai\<close> and \<open>openrouter\<close> set it to a non-empty
  \<open>LLM_API_KEY\<close>. \<open>OPENROUTER_API_KEY\<close> is not guarded: with the provider \<open>openrouter\<close>
  and a non-empty \<open>LLM_API_KEY\<close> it is set to the supplied key whether or not it was set
  before, and it is unchanged otherwise. No other variable changes.
\<close>

theorem credential_propagation_frame:
  "\<exists>cfg env'. get_mem0_client_config env = Inr (cfg, env') \<and>
     (opt_truthy (env ''OPENAI_API_KEY'') \<longrightarrow> env' ''OPENAI_API_KEY'' = env ''OPENAI_API_KEY'') \<and>
     ((env ''LLM_PROVIDER'' = Some ''openai'' \<or> env ''LLM_PROVIDER'' = Some ''openrouter'') \<and>
      opt_truthy (env ''LLM_API_KEY'') \<and> \<not> opt_truthy (env ''OPENAI_API_KEY'') \<longrightarrow>
        env' ''OPENAI_API_KEY'' = env ''LLM_API_KEY'') \<and>
     (env ''LLM_PROVIDER'' = Some ''openrouter'' \<and> opt_truthy (env ''LLM_API_KEY'') \<longrightarrow>
        env' ''OPENROUTER_API_KEY'' = env ''LLM_API_KEY'') \<and>
     (env ''LLM_PROVIDER'' \<noteq> Some ''openrouter'' \<or> \<not> opt_truthy (env ''LLM_API_KEY'') \<longrightarrow>
        env' ''OPENROUTER_API_KEY'' = env ''OPENROUTER_API_KEY'') \<and>
     (\<forall>k. k \<noteq> ''OPENAI_API_KEY'' \<and> k \<noteq> ''OPENROUTER_API_KEY'' \<longrightarrow> env' k = env k)"
proof -
  obtain l1 e1 l2 e2 where
    a: "configure_llm (PDict []) env = Inr (PDict l1, e1)" and
    b: "configure_embedder (PDict l1) e1 = Inr (PDict l2, e2)" and
    c: "get_mem0_client_config env =
       Inr (PDict (AList.update ''vector_store''
              (if e2 ''VECTOR_STORE_PROVIDER'' = Some ''qdrant''
               then qdrant_section e2 else supabase_section e2) l2), e2)"
    by (rule builder_stages)
  show ?thesis
    using builder_openai_key [OF c] builder_openrouter_key [OF c] builder_env [OF c]
    unfolding c by auto
qed

theorem credential_propagation_frame_witness:
  "\<exists>cfg env'.
     get_mem0_client_config
       [''LLM_PROVIDER'' \<mapsto> ''openai'', ''LLM_API_KEY'' \<mapsto> ''new'',
        ''OPENAI_API_KEY'' \<mapsto> ''old''] = Inr (cfg, env') \<and>
     env' ''OPENAI_API_KEY'' = Some ''old'' \<and> env' ''OPENROUTER_API_KEY'' = None \<and>
     env' ''LLM_API_KEY'' = Some ''new''"
  using credential_propagation_frame
    [of "[''LLM_PROVIDER'' \<mapsto> ''openai'', ''LLM_API_KEY'' \<mapsto> ''new'',
          ''OPENAI_API_KEY'' \<mapsto> ''old'']"]
  by (auto simp: opt_truthy_def)

text \<open>
  The claim as stated fails for the provider \<open>openrouter\<close>: its variable
  \<open>OPENROUTER_API_KEY\<close>, set to \<open>old\<close> before the call, holds the supplied key after it.
\<close>

theorem openrouter_key_overwritten:
  "\<exists>cfg env'.
     get_mem0_client_config
       [''LLM_PROVIDER'' \<mapsto> ''openrouter'', ''LLM_API_KEY'' \<mapsto> ''new'',
        ''OPENROUTER_API_KEY'' \<mapsto> ''old''] = Inr (cfg, env') \<and>
     env' ''OPENROUTER_API_KEY'' = Some ''new'' \<and>
     env' ''OPENROUTER_API_KEY'' \<noteq>
       [''LLM_PROVIDER'' \<mapsto> ''openrouter'', ''LLM_API_KEY'' \<mapsto> ''new'',
        ''OPENROUTER_API_KEY'' \<mapsto> ''old''] ''OPENROUTER_API_KEY''"
proof -
  let ?env = "[''LLM_PROVIDER'' \<mapsto> ''openrouter'', ''LLM_API_KEY'' \<mapsto> ''new'',
        ''OPENROUTER_API_KEY'' \<mapsto> ''old'']"
  obtain l1 e1 l2 e2 where
    a: "configure_llm (PDict []) ?env = Inr (PDict l1, e1)" and
    b: "configure_embedder (PDict l1) e1 = Inr (PDict l2, e2)" and
    c: "get_mem0_client_config ?env =
       Inr (PDict (AList.update ''vector_store''
              (if e2 ''VECTOR_STORE_PROVIDER'' = Some ''qdrant''
               then qdrant_section e2 else supabase_section e2) l2), e2)"
    by (rule builder_stages)
  show ?thesis
    using builder_openrouter_key [OF c] unfolding c by (simp add: opt_truthy_def)
qed

text \<open>
  Claim C8, as amended. For every environment the configuration-building portion of
  \<open>get_mem0_client\<close> returns a configuration: no lookup or assignment in it raises. A
  setting that is absent from the environment and has no fallback arrives as \<open>None\<close> (the
  model name of the providers \<open>openai\<close>, \<open>openrouter\<close> and \<open>ollama\<close>, the URL and the API
  key of the qdrant section) or is left out (the language-model and embedding sections when
  there is no provider name, the key \<open>ollama_base_url\<close> when there is no base URL). A
  setting that has a fallback arrives as that fallback: the model name of \<open>github_copilot\<close>,
  the embedding model name of every provider that has an embedding section, the connection
  string (the empty string), the qdrant collection name and the backend selector
  (\<open>supabase\<close>).
\<close>

theorem builder_never_raises:
  "\<exists>cfg env'. get_mem0_client_config env = Inr (cfg, env') \<and>
     ((env ''LLM_PROVIDER'' = Some ''openai'' \<or> env ''LLM_PROVIDER'' = Some ''openrouter'' \<or>
       env ''LLM_PROVIDER'' = Some ''ollama'') \<and> env ''LLM_CHOICE'' = None \<longrightarrow>
        py_path cfg [''llm'', ''config'', ''model''] = Inr PNone) \<and>
     (env ''VECTOR_STORE_PROVIDER'' = Some ''qdrant'' \<and> env ''QDRANT_URL'' = None \<longrightarrow>
        py_path cfg [''vector_store'', ''config'', ''url''] = Inr PNone) \<and>
     (env ''VECTOR_STORE_PROVIDER'' = Some ''qdrant'' \<and> env ''QDRANT_API_KEY'' = None \<longrightarrow>
        py_path cfg [''vector_store'', ''config'', ''api_key''] = Inr PNone) \<and>
     (env ''LLM_PROVIDER'' = None \<longrightarrow> py_keys cfg = Inr [''vector_store'']) \<and>
     (env ''LLM_PROVIDER'' = Some ''ollama'' \<and> env ''LLM_BASE_URL'' = None \<longrightarrow>
        keys_at cfg [''llm'', ''config''] = Inr [''model'', ''temperature'', ''max_tokens''] \<and>
        keys_at cfg [''embedder'', ''config''] = Inr [''model'', ''embedding_dims'']) \<and>
     (env ''LLM_PROVIDER'' = Some ''github_copilot'' \<and> env ''LLM_CHOICE'' = None \<longrightarrow>
        py_path cfg [''llm'', ''config'', ''model''] = Inr (PStr ''github_copilot/gpt-4o'')) \<and>
     (env ''LLM_PROVIDER'' = Some ''openai'' \<and> env ''EMBEDDING_MODEL_CHOICE'' = None \<longrightarrow>
        py_path cfg [''embedder'', ''config'', ''model''] = Inr (PStr ''text-embedding-3-small'')) \<and>
     (env ''LLM_PROVIDER'' = Some ''github_copilot'' \<and> env ''EMBEDDING_MODEL_CHOICE'' = None \<longrightarrow>
        py_path cfg [''embedder'', ''config'', ''model''] =
          Inr (PStr ''github_copilot/text-embedding-3-small'')) \<and>
     (env ''LLM_PROVIDER'' = Some ''ollama'' \<and> env ''EMBEDDING_MODEL_CHOICE'' = None \<longrightarrow>
        py_path cfg [''embedder'', ''config'', ''model''] = Inr (PStr ''nomic-embed-text'')) \<and>
     (env ''VECTOR_STORE_PROVIDER'' \<noteq> Some ''qdrant'' \<and> env ''DATABASE_URL'' = None \<longrightarrow>
        py_path cfg [''vector_store'', ''config'', ''connection_string''] = Inr (PStr [])) \<and>
     (env ''VECTOR_STORE_PROVIDER'' = Some ''qdrant'' \<and> env ''QDRANT_COLLECTION_NAME'' = None \<longrightarrow>
        py_path cfg [''vector_store'', ''config'', ''collection_name''] =
          Inr (PStr ''mem0_memories'')) \<and>
     (env ''VECTOR_STORE_PROVIDER'' = None \<longrightarrow>
        py_path cfg [''vector_store'', ''provider''] = Inr (PStr ''supabase''))"
proof (cases rule: provider_cases [of env])
  case 1
  with config_openai [of env] show ?thesis
    by (auto simp: path_simps vector_store_section_def qdrant_section_def supabase_section_def
        opt_val_def opt_or_def getenv_default_def)
next
  case 2
  with config_openrouter [of env] show ?thesis
    by (auto simp: path_simps vector_store_section_def qdrant_section_def supabase_section_def
        opt_val_def opt_or_def getenv_default_def)
next
  case 3
  with config_copilot [of env] show ?thesis
    by (auto simp: path_simps vector_store_section_def qdrant_section_def supabase_section_def
        opt_val_def opt_or_def getenv_default_def)
next
  case 4
  with config_ollama [of env] show ?thesis
    by (auto simp: path_simps vector_store_section_def qdrant_section_def supabase_section_def
        opt_val_def opt_or_def getenv_default_def opt_truthy_def)
next
  case 5
  with config_other [of env] show ?thesis
    by (auto simp: path_simps vector_store_section_def qdrant_section_def supabase_section_def
        opt_val_def opt_or_def getenv_default_def)
qed

theorem builder_never_raises_witness:
  "(\<exists>cfg env'. get_mem0_client_config [''VECTOR_STORE_PROVIDER'' \<mapsto> ''qdrant''] = Inr (cfg, env') \<and>
     py_path cfg [''vector_store'', ''config'', ''url''] = Inr PNone \<and>
     py_path cfg [''vector_store'', ''config'', ''api_key''] = Inr PNone \<and>
     py_path cfg [''vector_store'', ''config'', ''collection_name''] = Inr (PStr ''mem0_memories'') \<and>
     py_keys cfg = Inr [''vector_store'']) \<and>
   (\<exists>cfg env'. get_mem0_client_config [''LLM_PROVIDER'' \<mapsto> ''ollama''] = Inr (cfg, env') \<and>
     py_path cfg [''llm'', ''config'', ''model''] = Inr PNone \<and>
     keys_at cfg [''llm'', ''config''] = Inr [''model'', ''temperature'', ''max_tokens''] \<and>
     py_path cfg [''embedder'', ''config'', ''model''] = Inr (PStr ''nomic-embed-text'') \<and>
     py_path cfg [''vector_store'', ''config'', ''connection_string''] = Inr (PStr []))"
  using builder_never_raises [of "[''VECTOR_STORE_PROVIDER'' \<mapsto> ''qdrant'']"]
        builder_never_raises [of "[''LLM_PROVIDER'' \<mapsto> ''ollama'']"]
  by auto

text \<open>
  The claim as stated lets every omitted field through as unset or \<open>None\<close>. With
  \<open>LLM_PROVIDER=github_copilot\<close> and nothing else set, the omitted model name arrives as
  \<open>github_copilot/gpt-4o\<close>, the omitted embedding model name as its fallback, and the
  omitted connection string as the empty string.
\<close>

theorem omitted_model_gets_fallback:
  "\<exists>cfg env'. get_mem0_client_config [''LLM_PROVIDER'' \<mapsto> ''github_copilot''] = Inr (cfg, env') \<and>
     [''LLM_PROVIDER'' \<mapsto> ''github_copilot''] ''LLM_CHOICE'' = None \<and>
     py_path cfg [''llm'', ''config'', ''model''] = Inr (PStr ''github_copilot/gpt-4o'') \<and>
     py_path cfg [''llm'', ''config'', ''model''] \<noteq> Inr PNone \<and>
     py_path cfg [''embedder'', ''config'', ''model''] =
       Inr (PStr ''github_copilot/text-embedding-3-small'') \<and>
     py_path cfg [''vector_store'', ''config'', ''connection_string''] = Inr (PStr [])"
  using config_copilot [of "[''LLM_PROVIDER'' \<mapsto> ''github_copilot'']"]
  by (auto simp: path_simps vector_store_section_def supabase_section_def opt_or_def
      getenv_default_def)

section \<open>Properties of the memory manager\<close>

subsection \<open>Printing, reading and requests\<close>

lemma print_simps [simp]:
  "service (print m w) = service w" "calls (print m w) = calls w"
  "out (print m w) = out w @ [m]" "stdin (print m w) = stdin w" "environ (print m w) = environ w"
  by (simp_all add: print_def)

lemma request_eq:
  "f (service w) = (r, s) \<Longrightarrow>
     request c f w = (r, w\<lparr>service := s, calls := calls w @ [(c, returned r)]\<rparr>)"
  by (simp add: request_def)

lemma request_calls:
  "request c f w = (r, w1) \<Longrightarrow> calls w1 = calls w @ [(c, returned r)]"
  by (auto simp: request_def split: prod.splits)

lemma input_line:
  "stdin w = l # ls \<Longrightarrow> input p w = (Inr l, (print (Prompt p) w)\<lparr>stdin := ls\<rparr>)"
  by (simp add: input_def Let_def)

subsection \<open>Listing\<close>

lemma print_memories_ok:
  "list_all printable_memory items \<Longrightarrow> fst (print_memories items i w) = Inr ()"
proof (induction items arbitrary: i w)
  case Nil
  then show ?case by simp
next
  case (Cons memory rest)
  from Cons.prems have p: "printable_memory memory" and r: "list_all printable_memory rest"
    by simp_all
  from p obtain kvs where kvs: "memory = PDict kvs"
    by (cases memory) (simp_all add: printable_memory_def returned_def bind_exn_def)
  from p obtain t where t: "bind_exn (py_get memory ''memory'' (PStr ''N/A'')) (py_slice_to 100) = Inr t"
    by (auto simp: printable_memory_def returned_def split: sum.splits)
  show ?case
    using t Cons.IH [OF r] by (simp add: kvs Let_def)
qed

lemma list_memories_try_eq:
  assumes "mem_get_all api (effective_user_id u a r) a r (service w) = (resp, s1)"
  shows "list_memories_try api u a r w =
           (let w1 = (print (if \<not> opt_truthy u \<and> \<not> opt_truthy a \<and> \<not> opt_truthy r
                             then LineS ''Fetching memories for default user'' DEFAULT_USER_ID
                             else Line ''Fetching memories...'') w)
                       \<lparr>service := s1,
                        calls := calls w @ [(GetAll (effective_user_id u a r) a r, returned resp)]\<rparr>
            in case resp of Inl e \<Rightarrow> (Inl e, w1) | Inr m \<Rightarrow> list_response m w1)"
proof (cases "\<not> opt_truthy u \<and> \<not> opt_truthy a \<and> \<not> opt_truthy r")
  case True
  then have e: "effective_user_id u a r = Some DEFAULT_USER_ID"
    by (simp add: effective_user_id_def)
  from assms show ?thesis
    unfolding e using True
    by (cases resp) (simp_all add: list_memories_try_def Let_def request_eq)
next
  case False
  then have e: "effective_user_id u a r = u"
    by (auto simp: effective_user_id_def)
  from assms show ?thesis
    unfolding e using False
    by (cases resp) (auto simp add: list_memories_try_def Let_def request_eq)
qed

lemma list_response_cases:
  "fst (list_response m w) = Inr (response_memories m) \<or> (\<exists>e. fst (list_response m w) = Inl e)"
  by (auto simp: list_response_def Let_def split: sum.splits prod.splits)

lemma list_response_list:
  assumes "response_memories m = PList xs" and "list_all printable_memory xs"
  shows "fst (list_response m w) = Inr (PList xs)"
proof -
  have "fst (print_memories xs 1 (print (LineN ''Found memories'' (int (length xs))) w)) = Inr ()"
    by (rule print_memories_ok [OF assms(2)])
  then show ?thesis
    by (auto simp: list_response_def Let_def assms(1) split: sum.splits prod.splits)
qed

lemma list_memories_fst:
  "fst (list_memories api u a r w) =
     (case fst (list_memories_try api u a r w) of Inl e \<Rightarrow> PList [] | Inr l \<Rightarrow> l)"
  by (auto simp: list_memories_def split: prod.splits sum.splits)

lemma list_memories_raised:
  assumes "mem_get_all api (effective_user_id u a r) a r (service w) = (Inl e, s1)"
  shows "fst (list_memories api u a r w) = PList []"
  using list_memories_try_eq [OF assms] by (simp add: list_memories_fst Let_def)

lemma list_memories_cases:
  assumes "mem_get_all api (effective_user_id u a r) a r (service w) = (Inr m, s1)"
  shows "fst (list_memories api u a r w) = response_memories m \<or>
         fst (list_memories api u a r w) = PList []"
proof -
  obtain w1 where "list_memories_try api u a r w = list_response m w1"
    using list_memories_try_eq [OF assms] by (simp add: Let_def)
  then show ?thesis
    using list_response_cases [of m w1] by (auto simp: list_memories_fst)
qed

lemma list_memories_list:
  assumes "mem_get_all api (effective_user_id u a r) a r (service w) = (Inr m, s1)"
      and "response_memories m = PList xs" and "list_all printable_memory xs"
  shows "fst (list_memories api u a r w) = PList xs"
proof -
  obtain w1 where "list_memories_try api u a r w = list_response m w1"
    using list_memories_try_eq [OF assms(1)] by (simp add: Let_def)
  then show ?thesis
    using list_response_list [OF assms(2,3), of w1] by (simp add: list_memories_fst)
qed

lemma response_memories_other:
  "\<not> is_list m \<Longrightarrow> \<not> has_results m \<Longrightarrow> response_memories m = PList []"
  by (cases m) auto

lemma response_memories_is_list: "results_is_list m \<Longrightarrow> is_list (response_memories m)"
  by (cases m) (auto split: option.splits)

text \<open>
  Claim C9. Let \<open>resp\<close> be what \<open>get_all\<close> answers, where the value under \<open>results\<close> of a
  dictionary response is a list, as the client's interface has it. \<open>list_memories\<close> always
  returns a list. When the response is a dictionary with a \<open>results\<close> key, that key's list
  is returned; a list is returned unchanged; a response of any other shape gives the empty
  list (in the first two cases provided that the listing loop can print every record, for
  otherwise the loop raises). When \<open>get_all\<close> raises, and whenever anything in the body of
  the \<open>try\<close> raises, the empty list is returned and nothing propagates.
\<close>

theorem list_memories_result:
  assumes "mem_get_all api (effective_user_id u a r) a r (service w) = (resp, s1)"
      and "\<forall>m. resp = Inr m \<longrightarrow> results_is_list m"
  shows "is_list (fst (list_memories api u a r w)) \<and>
         (\<forall>kvs xs. resp = Inr (PDict kvs) \<and> map_of kvs ''results'' = Some (PList xs) \<and>
            list_all printable_memory xs \<longrightarrow> fst (list_memories api u a r w) = PList xs) \<and>
         (\<forall>xs. resp = Inr (PList xs) \<and> list_all printable_memory xs \<longrightarrow>
            fst (list_memories api u a r w) = PList xs) \<and>
         (\<forall>m. resp = Inr m \<and> \<not> is_list m \<and> \<not> has_results m \<longrightarrow>
            fst (list_memories api u a r w) = PList []) \<and>
         (\<forall>e. resp = Inl e \<longrightarrow> fst (list_memories api u a r w) = PList []) \<and>
         (\<forall>e. fst (list_memories_try api u a r w) = Inl e \<longrightarrow>
            fst (list_memories api u a r w) = PList [])"
proof (intro conjI allI impI)
  show "is_list (fst (list_memories api u a r w))"
  proof (cases resp)
    case (Inl e)
    with assms(1) show ?thesis
      using list_memories_raised [of api u a r w e s1] by simp
  next
    case (Inr m)
    with assms(2) have "is_list (response_memories m)"
      by (simp add: response_memories_is_list)
    with Inr assms(1) show ?thesis
      using list_memories_cases [of api u a r w m s1] by auto
  qed
next
  fix kvs xs
  assume "resp = Inr (PDict kvs) \<and> map_of kvs ''results'' = Some (PList xs) \<and>
            list_all printable_memory xs"
  with assms(1) show "fst (list_memories api u a r w) = PList xs"
    using list_memories_list [of api u a r w "PDict kvs" s1 xs] by simp
next
  fix xs
  assume "resp = Inr (PList xs) \<and> list_all printable_memory xs"
  with assms(1) show "fst (list_memories api u a r w) = PList xs"
    using list_memories_list [of api u a r w "PList xs" s1 xs] by simp
next
  fix m
  assume h: "resp = Inr m \<and> \<not> is_list m \<and> \<not> has_results m"
  then have "response_memories m = PList []" by (simp add: response_memories_other)
  with assms(1) h show "fst (list_memories api u a r w) = PList []"
    using list_memories_cases [of api u a r w m s1] by auto
next
  fix e assume "resp = Inl e"
  with assms(1) show "fst (list_memories api u a r w) = PList []"
    using list_memories_raised [of api u a r w e s1] by simp
next
  fix e
  assume "fst (list_memories_try api u a r w) = Inl e"
  then show "fst (list_memories api u a r w) = PList []"
    by (simp add: list_memories_fst)
qed

theorem list_memories_result_witness:
  "is_list (fst (list_memories (mock_mem0 []) None None None
          (world0 [PDict [(''id'', PStr ''m1''), (''memory'', PStr ''likes tea'')]] [] Map.empty))) \<and>
   fst (list_memories (mock_mem0 []) None None None
          (world0 [PDict [(''id'', PStr ''m1''), (''memory'', PStr ''likes tea'')]] [] Map.empty)) =
     PList [PDict [(''id'', PStr ''m1''), (''memory'', PStr ''likes tea'')]] \<and>
   is_list (fst (list_memories (mock_mem0 []) None None None
          (world0 [PDict [(''id'', PStr ''m1''), (''memory'', PNone)]] [] Map.empty))) \<and>
   fst (list_memories (mock_mem0 []) None None None
          (world0 [PDict [(''id'', PStr ''m1''), (''memory'', PNone)]] [] Map.empty)) = PList []"
proof -
  let ?good = "[PDict [(''id'', PStr ''m1''), (''memory'', PStr ''likes tea'')]]"
  let ?bad = "[PDict [(''id'', PStr ''m1''), (''memory'', PNone)]]"
  have g: "mem_get_all (mock_mem0 []) (effective_user_id None None None) None None
             (service (world0 ?good [] Map.empty)) = (Inr (PDict [(''results'', PList ?good)]), ?good)"
    by (simp add: mock_mem0_def world0_def)
  have b: "mem_get_all (mock_mem0 []) (effective_user_id None None None) None None
             (service (world0 ?bad [] Map.empty)) = (Inr (PDict [(''results'', PList ?bad)]), ?bad)"
    by (simp add: mock_mem0_def world0_def)
  have gl: "\<forall>m. Inr (PDict [(''results'', PList ?good)]) = (Inr m :: exn + pyval) \<longrightarrow> results_is_list m"
    by simp
  have bl: "\<forall>m. Inr (PDict [(''results'', PList ?bad)]) = (Inr m :: exn + pyval) \<longrightarrow> results_is_list m"
    by simp
  have raised: "fst (list_memories_try (mock_mem0 []) None None None (world0 ?bad [] Map.empty)) =
                  Inl TypeError"
    by (simp add: list_memories_try_def list_response_def mock_mem0_def world0_def request_def
        opt_truthy_def bind_exn_def Let_def)
  from list_memories_result [OF g gl]
  have 1: "is_list (fst (list_memories (mock_mem0 []) None None None (world0 ?good [] Map.empty)))"
    and 2: "fst (list_memories (mock_mem0 []) None None None (world0 ?good [] Map.empty)) = PList ?good"
    by (simp_all add: printable_memory_def returned_def bind_exn_def)
  from list_memories_result [OF b bl] raised
  have 3: "is_list (fst (list_memories (mock_mem0 []) None None None (world0 ?bad [] Map.empty)))"
    and 4: "fst (list_memories (mock_mem0 []) None None None (world0 ?bad [] Map.empty)) = PList []"
    by simp_all
  from 1 2 3 4 show ?thesis by blast
qed

subsection \<open>Safe delete-all\<close>

text \<open>
  Claim C3. When the client returns at least one memory and the line read as confirmation
  is anything but \<open>DELETE\<close> (the comparison is exact, so \<open>delete\<close> is refused too),
  \<open>safe_delete_all_memories\<close> returns False, its last message is the cancellation, the only
  request sent to the client is the \<open>get_all\<close>, and the service is in the state that
  \<open>get_all\<close> left: no delete call is made.
\<close>

theorem safe_delete_needs_exact_confirmation:
  assumes "mem_get_all api (Some DEFAULT_USER_ID) None None (service w) = (Inr m, s1)"
      and "response_memories m = PList xs" and "xs \<noteq> []"
      and "stdin w = confirmation # rest" and "confirmation \<noteq> ''DELETE''"
  shows "\<exists>w'. safe_delete_all_memories api w = (False, w') \<and>
           service w' = s1 \<and>
           calls w' = calls w @ [(GetAll (Some DEFAULT_USER_ID) None None, True)] \<and>
           last (out w') = Line ''Operation cancelled'' \<and>
           stdin w' = rest"
  using assms
  by (simp add: safe_delete_all_memories_def safe_delete_all_memories_try_def Let_def
      request_eq input_line returned_def)

theorem safe_delete_needs_exact_confirmation_witness:
  "\<exists>w'. safe_delete_all_memories (mock_mem0 [])
            (world0 [PDict [(''id'', PStr ''m1'')]] [''delete''] Map.empty) = (False, w') \<and>
         service w' = [PDict [(''id'', PStr ''m1'')]] \<and>
         calls w' = [(GetAll (Some DEFAULT_USER_ID) None None, True)] \<and>
         last (out w') = Line ''Operation cancelled'' \<and>
         stdin w' = []"
  using safe_delete_needs_exact_confirmation
    [of "mock_mem0 []" "world0 [PDict [(''id'', PStr ''m1'')]] [''delete''] Map.empty"
        "PDict [(''results'', PList [PDict [(''id'', PStr ''m1'')]])]"
        "[PDict [(''id'', PStr ''m1'')]]" "[PDict [(''id'', PStr ''m1'')]]" "''delete''" "[]"]
  by (simp add: mock_mem0_def world0_def)

lemma delete_loop_attempts_all:
  assumes "\<forall>x\<in>set xs. has_id x"
  shows "\<exists>n' w' new. delete_loop api xs n b w = (Inr n', w') \<and>
           calls w' = calls w @ new \<and>
           map fst new = map (\<lambda>x. Delete (id_of x)) xs \<and>
           n' = n + length (filter snd new)"
  using assms
proof (induction xs arbitrary: n b w)
  case Nil
  then show ?case by simp
next
  case (Cons memory rest)
  from Cons.prems obtain v where v: "py_get memory ''id'' PNone = Inr v" "py_truthy v"
    by (auto simp: has_id_def split: sum.splits)
  have idv: "id_of memory = v" using v by (simp add: id_of_def)
  obtain r w1 where req: "request (Delete v) (mem_delete api v) w = (r, w1)"
    by (cases "request (Delete v) (mem_delete api v) w") auto
  have c1: "calls w1 = calls w @ [(Delete v, returned r)]"
    by (rule request_calls [OF req])
  from Cons.prems have rest: "\<forall>x\<in>set rest. has_id x" by simp
  show ?case
  proof (cases r)
    case (Inl e)
    from Cons.IH [OF rest, of n "Some v" "print (LineVE ''Could not delete memory'' v e) w1"]
    obtain n' w' new where
      "delete_loop api rest n (Some v) (print (LineVE ''Could not delete memory'' v e) w1) = (Inr n', w')"
      "calls w' = calls w1 @ new" "map fst new = map (\<lambda>x. Delete (id_of x)) rest"
      "n' = n + length (filter snd new)"
      by auto
    then show ?thesis
      using v req Inl c1 idv
      by (intro exI [of _ n'] exI [of _ w'] exI [of _ "(Delete v, False) # new"])
         (simp add: returned_def)
  next
    case (Inr u)
    from Cons.IH [OF rest, of "n + 1" "Some v" w1]
    obtain n' w' new where
      "delete_loop api rest (n + 1) (Some v) w1 = (Inr n', w')"
      "calls w' = calls w1 @ new" "map fst new = map (\<lambda>x. Delete (id_of x)) rest"
      "n' = n + 1 + length (filter snd new)"
      by auto
    then show ?thesis
      using v req Inr c1 idv
      by (intro exI [of _ n'] exI [of _ w'] exI [of _ "(Delete v, True) # new"])
         (simp add: returned_def)
  qed
qed

lemma safe_delete_all_attempts_all:
  assumes "mem_get_all api (Some DEFAULT_USER_ID) None None (service w) = (Inr m, s1)"
      and "response_memories m = PList xs" and "xs \<noteq> []"
      and "\<forall>x\<in>set xs. has_id x"
      and "stdin w = ''DELETE'' # rest"
  shows "\<exists>w' new. safe_delete_all_memories api w = (True, w') \<and>
           calls w' = calls w @ (GetAll (Some DEFAULT_USER_ID) None None, True) # new \<and>
           map fst new = map (\<lambda>x. Delete (id_of x)) xs \<and>
           last (out w') = LineN ''Successfully deleted memories'' (int (length (filter snd new)))"
proof -
  let ?w1 = "print (Line ''This deletes memory data but preserves database structure'')
                 (print (Line ''Safely deleting all mem0 memories...'') w)"
  let ?w2 = "?w1\<lparr>service := s1,
               calls := calls ?w1 @ [(GetAll (Some DEFAULT_USER_ID) None None, True)]\<rparr>"
  let ?w3 = "(print (Prompt ''Type DELETE to proceed: '')
               (print (LineN ''Found memories to delete'' (int (length xs))) ?w2))\<lparr>stdin := rest\<rparr>"
  obtain n' w' new where
    dl: "delete_loop api xs 0 None ?w3 = (Inr n', w')" and
    c: "calls w' = calls ?w3 @ new" and
    m: "map fst new = map (\<lambda>x. Delete (id_of x)) xs" and
    n: "n' = 0 + length (filter snd new)"
    using delete_loop_attempts_all [OF assms(4), of api 0 None ?w3] by blast
  have "safe_delete_all_memories api w =
          (True, print (LineN ''Successfully deleted memories'' (int n')) w')"
    using assms(1,2,3,5) dl
    by (simp add: safe_delete_all_memories_def safe_delete_all_memories_try_def Let_def
        request_eq input_line returned_def)
  then show ?thesis
    using c m n by simp
qed

section \<open>Properties of the vector-database manager\<close>

subsection \<open>Confirmation and configuration\<close>

lemma lower_char_y: "lower_char c = CHR ''y'' \<longleftrightarrow> c = CHR ''y'' \<or> c = CHR ''Y''"
  by (auto simp: lower_char_def split: option.splits if_splits)

lemma py_lower_y: "py_lower s = ''y'' \<longleftrightarrow> s = ''y'' \<or> s = ''Y''"
  by (cases s) (auto simp: py_lower_def lower_char_y)

lemma load_env_config_frame:
  assumes "load_env_config dotenv w = (r, w1)"
  shows "calls w1 = calls w" "service w1 = service w" "stdin w1 = stdin w"
  using assms
  by (auto simp: load_env_config_def Let_def split: option.splits sum.splits prod.splits)

lemma fold_assign: "fold (\<lambda>kv e. e(fst kv \<mapsto> snd kv)) as env = env ++ map_of (rev as)"
  by (induction as arbitrary: env) (auto simp: map_add_def fun_eq_iff split: option.splits)

lemma fold_assign_twice:
  "fold (\<lambda>kv e. e(fst kv \<mapsto> snd kv)) as (fold (\<lambda>kv e. e(fst kv \<mapsto> snd kv)) as env) =
   fold (\<lambda>kv e. e(fst kv \<mapsto> snd kv)) as env"
  by (simp add: fold_assign map_add_def fun_eq_iff split: option.splits)

lemma load_env_config_again:
  assumes "load_env_config dotenv w = (Inr config, w1)"
  shows "\<exists>m. load_env_config dotenv w1 = (Inr config, print m w1)"
  using assms
  by (auto simp: load_env_config_def Let_def fold_assign_twice print_def
      split: option.splits sum.splits prod.splits)

lemma py_int_1536: "py_int ''1536'' = Inr 1536"
  by (simp add: py_int_def py_strip_def is_space_def is_digit_def digits_value_def Let_def)

lemma load_env_config_plain:
  assumes "environ w ''EMBEDDING_DIMS'' = None"
  shows "load_env_config None w =
     (Inr \<lparr>cfg_url = environ w ''QDRANT_URL'',
           cfg_api_key = environ w ''QDRANT_API_KEY'',
           cfg_collection_name = getenv_default (environ w) ''QDRANT_COLLECTION_NAME'' ''mem0_memories'',
           cfg_embedding_dims = 1536,
           cfg_llm_provider = getenv_default (environ w) ''LLM_PROVIDER'' ''github_copilot''\<rparr>,
      print (Line ''Warning: No .env file found'') w)"
  using assms
  by (simp add: load_env_config_def Let_def getenv_default_def py_int_1536)

lemma delete_collection_try_calls:
  "\<exists>w'. delete_collection_try api name w = (Return (), w') \<and>
        map fst (calls w') = map fst (calls w) @ [DeleteCollection name]"
  by (cases "q_delete_collection api name (service w)")
     (auto simp: delete_collection_try_def request_eq split: sum.splits)

lemma clear_collection_try_calls:
  "\<exists>w' more. clear_collection_try api name w = (Return (), w') \<and>
        map fst (calls w') = map fst (calls w) @ Scroll name 10000 # more"
proof (cases "q_scroll api name 10000 (service w)")
  case (Pair r s1)
  show ?thesis
  proof (cases r)
    case (Inl e)
    with Pair show ?thesis
      by (simp add: clear_collection_try_def request_eq)
  next
    case (Inr points)
    show ?thesis
    proof (cases "q_delete api name (map point_id points) s1")
      case del: (Pair r2 s2)
      with Pair Inr show ?thesis
        by (cases r2) (simp_all add: clear_collection_try_def request_eq Let_def)
    qed
  qed
qed

lemma delete_collection_prompted:
  assumes "opt_truthy (arg_collection_name a)" and "\<not> arg_force a"
      and "load_env_config dotenv w = (Inr config, w1)" and "get_qdrant_client config = Inr ()"
      and "stdin w = confirm # rest"
  shows "\<exists>w2. calls w2 = calls w \<and> service w2 = service w \<and>
           delete_collection dotenv api a w =
             (if py_lower confirm \<noteq> ''y'' then (Return (), print (Line ''Operation cancelled.'') w2)
              else delete_collection_try api (opt_or (arg_collection_name a) []) w2)"
proof -
  have st: "stdin w1 = confirm # rest"
    using load_env_config_frame(3) [OF assms(3)] assms(5) by simp
  let ?w2 = "(print (Prompt (''Are you sure you want to delete collection '' @
                 opt_or (arg_collection_name a) [] @ ''? (y/N): '')) w1)\<lparr>stdin := rest\<rparr>"
  have "calls ?w2 = calls w" "service ?w2 = service w"
    using load_env_config_frame [OF assms(3)] by simp_all
  moreover have "delete_collection dotenv api a w =
             (if py_lower confirm \<noteq> ''y'' then (Return (), print (Line ''Operation cancelled.'') ?w2)
              else delete_collection_try api (opt_or (arg_collection_name a) []) ?w2)"
    using assms(1,2,4)
    by (simp add: delete_collection_def Let_def assms(3) input_line [OF st])
  ultimately show ?thesis by blast
qed

lemma clear_collection_prompted:
  assumes "\<not> arg_force a"
      and "load_env_config dotenv w = (Inr config, w1)" and "get_qdrant_client config = Inr ()"
      and "stdin w = confirm # rest"
  shows "\<exists>w2. calls w2 = calls w \<and> service w2 = service w \<and>
           clear_collection dotenv api a w =
             (if py_lower confirm \<noteq> ''y'' then (Return (), print (Line ''Operation cancelled.'') w2)
              else clear_collection_try api
                     (opt_or (arg_collection_name a) (cfg_collection_name config)) w2)"
proof (cases "opt_truthy (arg_collection_name a)")
  case True
  then have name: "opt_or (arg_collection_name a) (cfg_collection_name config) =
                   opt_or (arg_collection_name a) []"
    by (auto simp: opt_or_def opt_truthy_def split: option.splits)
  have st: "stdin w1 = confirm # rest"
    using load_env_config_frame(3) [OF assms(2)] assms(4) by simp
  let ?w2 = "(print (Prompt (''Are you sure you want to clear all vectors from '' @
                 opt_or (arg_collection_name a) (cfg_collection_name config) @ ''? (y/N): ''))
               w1)\<lparr>stdin := rest\<rparr>"
  have "calls ?w2 = calls w" "service ?w2 = service w"
    using load_env_config_frame [OF assms(2)] by simp_all
  moreover have "clear_collection dotenv api a w =
             (if py_lower confirm \<noteq> ''y'' then (Return (), print (Line ''Operation cancelled.'') ?w2)
              else clear_collection_try api
                     (opt_or (arg_collection_name a) (cfg_collection_name config)) ?w2)"
    using assms(1,3) True
    by (simp add: clear_collection_def Let_def assms(2) input_line [OF st] name)
  ultimately show ?thesis by blast
next
  case False
  then have name: "opt_or (arg_collection_name a) (cfg_collection_name config) =
                   cfg_collection_name config"
    by (auto simp: opt_or_def opt_truthy_def split: option.splits)
  obtain m where again: "load_env_config dotenv w1 = (Inr config, print m w1)"
    using load_env_config_again [OF assms(2)] by blast
  have st: "stdin (print m w1) = confirm # rest"
    using load_env_config_frame(3) [OF assms(2)] assms(4) by simp
  let ?w2 = "(print (Prompt (''Are you sure you want to clear all vectors from '' @
                 opt_or (arg_collection_name a) (cfg_collection_name config) @ ''? (y/N): ''))
               (print m w1))\<lparr>stdin := rest\<rparr>"
  have "calls ?w2 = calls w" "service ?w2 = service w"
    using load_env_config_frame [OF assms(2)] by simp_all
  moreover have "clear_collection dotenv api a w =
             (if py_lower confirm \<noteq> ''y'' then (Return (), print (Line ''Operation cancelled.'') ?w2)
              else clear_collection_try api
                     (opt_or (arg_collection_name a) (cfg_collection_name config)) ?w2)"
    using assms(1,3) False
    by (simp add: clear_collection_def Let_def assms(2) again input_line [OF st] name)
  ultimately show ?thesis by blast
qed

lemma delete_collection_try_exact:
  assumes "q_delete_collection api name (service w) = (r, s1)"
  shows "\<exists>w'. delete_collection_try api name w = (Return (), w') \<and> service w' = s1 \<and>
           calls w' = calls w @ [(DeleteCollection name, returned r)]"
  using assms
  by (cases r) (simp_all add: delete_collection_try_def request_eq)

lemma clear_collection_try_bulk:
  assumes "q_scroll api name 10000 (service w) = (Inr points, s1)" and "points \<noteq> []"
      and "q_delete api name (map point_id points) s1 = (r, s2)"
  shows "\<exists>w'. clear_collection_try api name w = (Return (), w') \<and>
           service w' = s2 \<and>
           calls w' = calls w @ [(Scroll name 10000, True),
                                 (DeletePoints name (map point_id points), returned r)] \<and>
           last (out w') =
             (case r of
                Inr u \<Rightarrow> LineSN ''Cleared vectors from collection'' name (int (length points))
              | Inl e \<Rightarrow> LineE ''Error clearing collection'' e)"
proof -
  let ?w1 = "w\<lparr>service := s1, calls := calls w @ [(Scroll name 10000, True)]\<rparr>"
  have r1: "request (Scroll name 10000) (q_scroll api name 10000) w = (Inr points, ?w1)"
    using request_eq [of "q_scroll api name 10000" w "Inr points" s1 "Scroll name 10000"] assms(1)
    by (simp add: returned_def)
  have r2: "request (DeletePoints name (map point_id points))
              (q_delete api name (map point_id points)) ?w1 =
            (r, ?w1\<lparr>service := s2,
                 calls := calls ?w1 @ [(DeletePoints name (map point_id points), returned r)]\<rparr>)"
    using request_eq [of "q_delete api name (map point_id points)" ?w1 r s2
        "DeletePoints name (map point_id points)"] assms(3)
    by simp
  show ?thesis
    using assms(2)
    by (cases r) (simp_all add: clear_collection_try_def r1 r2 Let_def)
qed

text \<open>
  Claim C10. Without \<open>--force\<close>, once the configuration is loaded and the client is built,
  \<open>delete_collection\<close> and \<open>clear_collection\<close> read one line. The line is accepted exactly
  when its lower-case form is \<open>y\<close>, that is, when it is \<open>y\<close> or \<open>Y\<close>. For every other line
  the function prints the cancellation and returns with no request sent to the client and
  the service unchanged. For \<open>y\<close> and \<open>Y\<close> the destructive request is made:
  \<open>delete_collection\<close> sends the delete of the named collection and leaves the service as
  that request left it; \<open>clear_collection\<close> sends the \<open>scroll\<close> and, when the page holds
  points, the delete that names every point of the page, and leaves the service as the
  delete left it, reporting the number of vectors cleared or the error.
\<close>

theorem confirmation_accepts_only_y:
  assumes "\<not> arg_force a"
      and "load_env_config dotenv w = (Inr config, w1)" and "get_qdrant_client config = Inr ()"
      and "stdin w = confirm # rest"
  shows "((py_lower confirm = ''y'') = (confirm = ''y'' \<or> confirm = ''Y'')) \<and>
         (opt_truthy (arg_collection_name a) \<and> confirm \<noteq> ''y'' \<and> confirm \<noteq> ''Y'' \<longrightarrow>
            (\<exists>w'. delete_collection dotenv api a w = (Return (), w') \<and>
                  calls w' = calls w \<and> service w' = service w \<and>
                  last (out w') = Line ''Operation cancelled.'')) \<and>
         (opt_truthy (arg_collection_name a) \<and> (confirm = ''y'' \<or> confirm = ''Y'') \<and>
          q_delete_collection api (opt_or (arg_collection_name a) []) (service w) = (r, s1) \<longrightarrow>
            (\<exists>w'. delete_collection dotenv api a w = (Return (), w') \<and> service w' = s1 \<and>
                  calls w' =
                    calls w @ [(DeleteCollection (opt_or (arg_collection_name a) []), returned r)])) \<and>
         (confirm \<noteq> ''y'' \<and> confirm \<noteq> ''Y'' \<longrightarrow>
            (\<exists>w'. clear_collection dotenv api a w = (Return (), w') \<and>
                  calls w' = calls w \<and> service w' = service w \<and>
                  last (out w') = Line ''Operation cancelled.'')) \<and>
         (confirm = ''y'' \<or> confirm = ''Y'' \<longrightarrow>
            (\<exists>w' more. clear_collection dotenv api a w = (Return (), w') \<and>
                  map fst (calls w') =
                    map fst (calls w) @
                    Scroll (opt_or (arg_collection_name a) (cfg_collection_name config)) 10000 # more)) \<and>
         ((confirm = ''y'' \<or> confirm = ''Y'') \<and>
          q_scroll api (opt_or (arg_collection_name a) (cfg_collection_name config)) 10000 (service w) =
            (Inr points, s2) \<and> points \<noteq> [] \<and>
          q_delete api (opt_or (arg_collection_name a) (cfg_collection_name config))
            (map point_id points) s2 = (r2, s3) \<longrightarrow>
            (\<exists>w'. clear_collection dotenv api a w = (Return (), w') \<and> service w' = s3 \<and>
                  calls w' =
                    calls w @
                    [(Scroll (opt_or (arg_collection_name a) (cfg_collection_name config)) 10000, True),
                     (DeletePoints (opt_or (arg_collection_name a) (cfg_collection_name config))
                        (map point_id points), returned r2)] \<and>
                  last (out w') =
                    (case r2 of
                       Inr u \<Rightarrow> LineSN ''Cleared vectors from collection''
                                  (opt_or (arg_collection_name a) (cfg_collection_name config))
                                  (int (length points))
                     | Inl e \<Rightarrow> LineE ''Error clearing collection'' e)))"
proof (intro conjI impI)
  show "(py_lower confirm = ''y'') = (confirm = ''y'' \<or> confirm = ''Y'')"
    by (rule py_lower_y)
next
  assume h: "opt_truthy (arg_collection_name a) \<and> confirm \<noteq> ''y'' \<and> confirm \<noteq> ''Y''"
  then have no: "py_lower confirm \<noteq> ''y''" by (simp add: py_lower_y)
  from h delete_collection_prompted [OF _ assms, of api]
  obtain w2 where "calls w2 = calls w" "service w2 = service w"
    "delete_collection dotenv api a w = (Return (), print (Line ''Operation cancelled.'') w2)"
    using no by auto
  then show "\<exists>w'. delete_collection dotenv api a w = (Return (), w') \<and>
                  calls w' = calls w \<and> service w' = service w \<and>
                  last (out w') = Line ''Operation cancelled.''"
    by simp
next
  assume h: "opt_truthy (arg_collection_name a) \<and> (confirm = ''y'' \<or> confirm = ''Y'') \<and>
          q_delete_collection api (opt_or (arg_collection_name a) []) (service w) = (r, s1)"
  then have yes: "py_lower confirm = ''y''" by (simp add: py_lower_y)
  from h delete_collection_prompted [OF _ assms, of api]
  obtain w2 where w2: "calls w2 = calls w" "service w2 = service w"
    "delete_collection dotenv api a w =
       delete_collection_try api (opt_or (arg_collection_name a) []) w2"
    using yes by auto
  from h w2(2) have d: "q_delete_collection api (opt_or (arg_collection_name a) []) (service w2) = (r, s1)"
    by simp
  from delete_collection_try_exact [OF d] w2
  show "\<exists>w'. delete_collection dotenv api a w = (Return (), w') \<and> service w' = s1 \<and>
                  calls w' =
                    calls w @ [(DeleteCollection (opt_or (arg_collection_name a) []), returned r)]"
    by simp
next
  assume h: "confirm \<noteq> ''y'' \<and> confirm \<noteq> ''Y''"
  then have no: "py_lower confirm \<noteq> ''y''" by (simp add: py_lower_y)
  from clear_collection_prompted [OF assms, of api]
  obtain w2 where "calls w2 = calls w" "service w2 = service w"
    "clear_collection dotenv api a w = (Return (), print (Line ''Operation cancelled.'') w2)"
    using no by auto
  then show "\<exists>w'. clear_collection dotenv api a w = (Return (), w') \<and>
                  calls w' = calls w \<and> service w' = service w \<and>
                  last (out w') = Line ''Operation cancelled.''"
    by simp
next
  assume h: "confirm = ''y'' \<or> confirm = ''Y''"
  then have yes: "py_lower confirm = ''y''" by (simp add: py_lower_y)
  from clear_collection_prompted [OF assms, of api]
  obtain w2 where w2: "calls w2 = calls w"
    "clear_collection dotenv api a w =
       clear_collection_try api (opt_or (arg_collection_name a) (cfg_collection_name config)) w2"
    using yes by auto
  then show "\<exists>w' more. clear_collection dotenv api a w = (Return (), w') \<and>
                  map fst (calls w') =
                    map fst (calls w) @
                    Scroll (opt_or (arg_collection_name a) (cfg_collection_name config)) 10000 # more"
    using clear_collection_try_calls
      [of api "opt_or (arg_collection_name a) (cfg_collection_name config)" w2] by simp
next
  let ?name = "opt_or (arg_collection_name a) (cfg_collection_name config)"
  assume h: "(confirm = ''y'' \<or> confirm = ''Y'') \<and>
          q_scroll api ?name 10000 (service w) = (Inr points, s2) \<and> points \<noteq> [] \<and>
          q_delete api ?name (map point_id points) s2 = (r2, s3)"
  then have yes: "py_lower confirm = ''y''" by (simp add: py_lower_y)
  from clear_collection_prompted [OF assms, of api]
  obtain w2 where w2: "calls w2 = calls w" "service w2 = service w"
    "clear_collection dotenv api a w = clear_collection_try api ?name w2"
    using yes by auto
  from h w2(2) have sc: "q_scroll api ?name 10000 (service w2) = (Inr points, s2)"
    and ne: "points \<noteq> []" and dl: "q_delete api ?name (map point_id points) s2 = (r2, s3)"
    by simp_all
  from clear_collection_try_bulk [OF sc ne dl] w2
  show "\<exists>w'. clear_collection dotenv api a w = (Return (), w') \<and> service w' = s3 \<and>
                  calls w' =
                    calls w @
                    [(Scroll ?name 10000, True),
                     (DeletePoints ?name (map point_id points), returned r2)] \<and>
                  last (out w') =
                    (case r2 of
                       Inr u \<Rightarrow> LineSN ''Cleared vectors from collection'' ?name (int (length points))
                     | Inl e \<Rightarrow> LineE ''Error clearing collection'' e)"
    by simp
qed

theorem confirmation_accepts_only_y_witness:
  "(\<exists>w'. delete_collection None (mock_qdrant [])
            \<lparr>arg_collection_name = Some ''mem0_memories'', arg_force = False\<rparr>
            (world0 \<lparr>q_collections = [''mem0_memories''], q_points = three_points\<rparr> [''yes''] qdrant_env)
          = (Return (), w') \<and> calls w' = [] \<and>
          service w' = \<lparr>q_collections = [''mem0_memories''], q_points = three_points\<rparr> \<and>
          last (out w') = Line ''Operation cancelled.'') \<and>
   (\<exists>w'. clear_collection None (mock_qdrant [])
            \<lparr>arg_collection_name = Some ''mem0_memories'', arg_force = False\<rparr>
            (world0 \<lparr>q_collections = [''mem0_memories''], q_points = three_points\<rparr> [''yes''] qdrant_env)
          = (Return (), w') \<and> calls w' = [] \<and>
          service w' = \<lparr>q_collections = [''mem0_memories''], q_points = three_points\<rparr> \<and>
          last (out w') = Line ''Operation cancelled.'') \<and>
   (\<exists>w'. delete_collection None (mock_qdrant [])
            \<lparr>arg_collection_name = Some ''mem0_memories'', arg_force = False\<rparr>
            (world0 \<lparr>q_collections = [''mem0_memories''], q_points = three_points\<rparr> [''Y''] qdrant_env)
          = (Return (), w') \<and>
          service w' = \<lparr>q_collections = [], q_points = three_points\<rparr> \<and>
          calls w' = [(DeleteCollection ''mem0_memories'', True)]) \<and>
   (\<exists>w'. clear_collection None (mock_qdrant [])
            \<lparr>arg_collection_name = Some ''mem0_memories'', arg_force = False\<rparr>
            (world0 \<lparr>q_collections = [''mem0_memories''], q_points = three_points\<rparr> [''Y''] qdrant_env)
          = (Return (), w') \<and>
          service w' = \<lparr>q_collections = [''mem0_memories''], q_points = []\<rparr> \<and>
          calls w' = [(Scroll ''mem0_memories'' 10000, True),
                      (DeletePoints ''mem0_memories'' [PInt 1, PInt 2, PInt 3], True)] \<and>
          last (out w') = LineSN ''Cleared vectors from collection'' ''mem0_memories'' 3)"
proof -
  let ?s = "\<lparr>q_collections = [''mem0_memories''], q_points = three_points\<rparr>"
  let ?a = "\<lparr>arg_collection_name = Some ''mem0_memories'', arg_force = False\<rparr>"
  let ?no = "world0 ?s [''yes''] qdrant_env"
  let ?yes = "world0 ?s [''Y''] qdrant_env"
  have f: "\<not> arg_force ?a" by simp
  have e1: "environ ?no ''EMBEDDING_DIMS'' = None" and e2: "environ ?yes ''EMBEDDING_DIMS'' = None"
    by (simp_all add: world0_def qdrant_env_def)
  have c1: "get_qdrant_client
             \<lparr>cfg_url = environ ?no ''QDRANT_URL'',
              cfg_api_key = environ ?no ''QDRANT_API_KEY'',
              cfg_collection_name = getenv_default (environ ?no) ''QDRANT_COLLECTION_NAME'' ''mem0_memories'',
              cfg_embedding_dims = 1536,
              cfg_llm_provider = getenv_default (environ ?no) ''LLM_PROVIDER'' ''github_copilot''\<rparr> = Inr ()"
    by (simp add: get_qdrant_client_def world0_def qdrant_env_def opt_truthy_def)
  have c2: "get_qdrant_client
             \<lparr>cfg_url = environ ?yes ''QDRANT_URL'',
              cfg_api_key = environ ?yes ''QDRANT_API_KEY'',
              cfg_collection_name = getenv_default (environ ?yes) ''QDRANT_COLLECTION_NAME'' ''mem0_memories'',
              cfg_embedding_dims = 1536,
              cfg_llm_provider = getenv_default (environ ?yes) ''LLM_PROVIDER'' ''github_copilot''\<rparr> = Inr ()"
    by (simp add: get_qdrant_client_def world0_def qdrant_env_def opt_truthy_def)
  have s1: "stdin ?no = ''yes'' # []" and s2: "stdin ?yes = ''Y'' # []"
    by (simp_all add: world0_def)
  note no = confirmation_accepts_only_y [OF f load_env_config_plain [OF e1] c1 s1, of "mock_qdrant []"]
  note yes = confirmation_accepts_only_y [OF f load_env_config_plain [OF e2] c2 s2, of "mock_qdrant []"
      "Inr ()" "\<lparr>q_collections = [], q_points = three_points\<rparr>"
      three_points ?s "Inr ()" "\<lparr>q_collections = [''mem0_memories''], q_points = []\<rparr>"]
  from no have a: "\<exists>w'. delete_collection None (mock_qdrant []) ?a ?no = (Return (), w') \<and> calls w' = [] \<and>
          service w' = ?s \<and> last (out w') = Line ''Operation cancelled.''"
    by (simp add: opt_truthy_def world0_def)
  from no have b: "\<exists>w'. clear_collection None (mock_qdrant []) ?a ?no = (Return (), w') \<and> calls w' = [] \<and>
          service w' = ?s \<and> last (out w') = Line ''Operation cancelled.''"
    by (simp add: opt_truthy_def world0_def)
  have dq: "q_delete_collection (mock_qdrant []) ''mem0_memories'' ?s =
              (Inr (), \<lparr>q_collections = [], q_points = three_points\<rparr>)"
    by (simp add: mock_qdrant_def)
  from yes have c: "\<exists>w'. delete_collection None (mock_qdrant []) ?a ?yes = (Return (), w') \<and>
          service w' = \<lparr>q_collections = [], q_points = three_points\<rparr> \<and>
          calls w' = [(DeleteCollection ''mem0_memories'', True)]"
    by (simp add: opt_truthy_def opt_or_def world0_def dq returned_def)
  from yes have d: "\<exists>w'. clear_collection None (mock_qdrant []) ?a ?yes = (Return (), w') \<and>
          service w' = \<lparr>q_collections = [''mem0_memories''], q_points = []\<rparr> \<and>
          calls w' = [(Scroll ''mem0_memories'' 10000, True),
                      (DeletePoints ''mem0_memories'' [PInt 1, PInt 2, PInt 3], True)] \<and>
          last (out w') = LineSN ''Cleared vectors from collection'' ''mem0_memories'' 3"
    by (simp add: opt_truthy_def opt_or_def world0_def mock_qdrant_def returned_def
        three_points_def)
  from a b c d show ?thesis by blast
qed

subsection \<open>Creating a collection that exists\<close>

lemma create_and_report_calls:
  "\<exists>w'. fst (create_and_report api name dims provider w) =
            (case fst (q_create_collection api name dims COSINE (service w)) of
               Inl e \<Rightarrow> Inl e | Inr u \<Rightarrow> Inr ()) \<and>
        snd (create_and_report api name dims provider w) = w' \<and>
        map fst (calls w') = map fst (calls w) @ [CreateCollection name dims COSINE]"
  by (cases "q_create_collection api name dims COSINE (service w)")
     (auto simp: create_and_report_def request_eq split: sum.splits)

lemma create_collection_try_existing:
  assumes "q_get_collections api (service w) = (Inr collections, s1)"
      and "name \<in> set collections"
  shows "(\<not> force \<longrightarrow>
           create_collection_try api force name dims provider w =
             (Inr (), print (LineS ''Collection already exists. Use --force to recreate.'' name)
                        (w\<lparr>service := s1, calls := calls w @ [(GetCollections, True)]\<rparr>))) \<and>
         (force \<longrightarrow>
           map fst (calls (snd (create_collection_try api force name dims provider w))) =
             map fst (calls w) @ [GetCollections, DeleteCollection name] @
             (if returned (fst (q_delete_collection api name s1))
              then [CreateCollection name dims COSINE] else []))"
proof -
  have ex: "filter (\<lambda>c. c = name) collections \<noteq> []"
    using assms(2) by (simp add: filter_empty_conv)
  let ?w1 = "w\<lparr>service := s1, calls := calls w @ [(GetCollections, True)]\<rparr>"
  have r1: "request GetCollections (q_get_collections api) w = (Inr collections, ?w1)"
    using request_eq [of "q_get_collections api" w "Inr collections" s1 GetCollections] assms(1)
    by (simp add: returned_def)
  show ?thesis
  proof (intro conjI impI)
    assume "\<not> force"
    then show "create_collection_try api force name dims provider w =
             (Inr (), print (LineS ''Collection already exists. Use --force to recreate.'' name) ?w1)"
      using ex by (simp add: create_collection_try_def r1 Let_def)
  next
    assume f: force
    obtain r2 s2 where d: "q_delete_collection api name s1 = (r2, s2)"
      by (cases "q_delete_collection api name s1") auto
    let ?w2 = "(print (LineS ''Deleting existing collection'' name) ?w1)
                 \<lparr>service := s2,
                  calls := calls ?w1 @ [(DeleteCollection name, returned r2)]\<rparr>"
    have r2: "request (DeleteCollection name) (q_delete_collection api name)
                (print (LineS ''Deleting existing collection'' name) ?w1) = (r2, ?w2)"
      using request_eq [of "q_delete_collection api name"
          "print (LineS ''Deleting existing collection'' name) ?w1" r2 s2 "DeleteCollection name"] d
      by simp
    show "map fst (calls (snd (create_collection_try api force name dims provider w))) =
             map fst (calls w) @ [GetCollections, DeleteCollection name] @
             (if returned (fst (q_delete_collection api name s1))
              then [CreateCollection name dims COSINE] else [])"
    proof (cases r2)
      case (Inl e)
      then show ?thesis
        using f ex d by (simp add: create_collection_try_def r1 r2 Let_def returned_def)
    next
      case (Inr u)
      obtain w' where
        "snd (create_and_report api name dims provider ?w2) = w'"
        "map fst (calls w') = map fst (calls ?w2) @ [CreateCollection name dims COSINE]"
        using create_and_report_calls [of api name dims provider ?w2] by blast
      then show ?thesis
        using f ex d Inr by (simp add: create_collection_try_def r1 r2 Let_def returned_def)
    qed
  qed
qed

text \<open>
  Claim C6. When the collection already exists: without \<open>--force\<close>, \<open>create_collection\<close>
  sends the listing request only, leaves the service as the listing left it, and its last
  message is the one saying that the collection exists; with \<open>--force\<close> the requests are
  the listing, then \<open>delete_collection\<close>, then \<open>create_collection\<close>, in that order (the
  create request follows when the delete request returns; when the client raises on it,
  the handler reports the error and nothing is created).
\<close>

theorem create_collection_on_existing:
  assumes "load_env_config dotenv w = (Inr config, w1)" and "get_qdrant_client config = Inr ()"
      and "q_get_collections api (service w) = (Inr collections, s1)"
      and "opt_or (arg_collection_name a) (cfg_collection_name config) \<in> set collections"
  shows "(\<not> arg_force a \<longrightarrow>
           (\<exists>w'. create_collection dotenv api a w = (Return (), w') \<and>
                 calls w' = calls w @ [(GetCollections, True)] \<and> service w' = s1 \<and>
                 last (out w') =
                   LineS ''Collection already exists. Use --force to recreate.''
                     (opt_or (arg_collection_name a) (cfg_collection_name config)))) \<and>
         (arg_force a \<longrightarrow>
           (\<exists>w'. create_collection dotenv api a w = (Return (), w') \<and>
                 map fst (calls w') =
                   map fst (calls w) @
                   [GetCollections,
                    DeleteCollection (opt_or (arg_collection_name a) (cfg_collection_name config))] @
                   (if returned (fst (q_delete_collection api
                          (opt_or (arg_collection_name a) (cfg_collection_name config)) s1))
                    then [CreateCollection
                            (opt_or (arg_collection_name a) (cfg_collection_name config))
                            (get_embedding_dimensions (cfg_llm_provider config)) COSINE]
                    else [])))"
proof -
  let ?name = "opt_or (arg_collection_name a) (cfg_collection_name config)"
  let ?dims = "get_embedding_dimensions (cfg_llm_provider config)"
  have fr: "calls w1 = calls w" "service w1 = service w"
    using load_env_config_frame [OF assms(1)] by simp_all
  have g: "q_get_collections api (service w1) = (Inr collections, s1)"
    using assms(3) fr by simp
  note t = create_collection_try_existing [OF g assms(4), of "arg_force a" ?dims "cfg_llm_provider config"]
  have cc: "create_collection dotenv api a w =
          (case create_collection_try api (arg_force a) ?name ?dims (cfg_llm_provider config) w1 of
             (Inr u, w2) \<Rightarrow> (Return (), w2)
           | (Inl e, w2) \<Rightarrow> (Return (), print (LineE ''Error creating collection'' e) w2))"
    by (simp add: create_collection_def assms(1,2) Let_def)
  show ?thesis
  proof (intro conjI impI)
    assume "\<not> arg_force a"
    with t show "\<exists>w'. create_collection dotenv api a w = (Return (), w') \<and>
                 calls w' = calls w @ [(GetCollections, True)] \<and> service w' = s1 \<and>
                 last (out w') = LineS ''Collection already exists. Use --force to recreate.'' ?name"
      by (simp add: cc fr)
  next
    assume "arg_force a"
    with t have m: "map fst (calls (snd (create_collection_try api (arg_force a) ?name ?dims
                       (cfg_llm_provider config) w1))) =
             map fst (calls w) @ [GetCollections, DeleteCollection ?name] @
             (if returned (fst (q_delete_collection api ?name s1))
              then [CreateCollection ?name ?dims COSINE] else [])"
      by (simp add: fr)
    show "\<exists>w'. create_collection dotenv api a w = (Return (), w') \<and>
                 map fst (calls w') =
                   map fst (calls w) @ [GetCollections, DeleteCollection ?name] @
                   (if returned (fst (q_delete_collection api ?name s1))
                    then [CreateCollection ?name ?dims COSINE] else [])"
      using m
      by (cases "create_collection_try api (arg_force a) ?name ?dims (cfg_llm_provider config) w1")
         (auto simp: cc split: sum.splits)
  qed
qed

theorem create_collection_on_existing_witness:
  "(\<exists>w'. create_collection None (mock_qdrant [])
            \<lparr>arg_collection_name = Some ''mem0_memories'', arg_force = False\<rparr>
            (world0 \<lparr>q_collections = [''mem0_memories''], q_points = three_points\<rparr> [] qdrant_env)
          = (Return (), w') \<and>
          calls w' = [(GetCollections, True)] \<and>
          service w' = \<lparr>q_collections = [''mem0_memories''], q_points = three_points\<rparr> \<and>
          last (out w') =
            LineS ''Collection already exists. Use --force to recreate.'' ''mem0_memories'') \<and>
   (\<exists>w'. create_collection None (mock_qdrant [])
            \<lparr>arg_collection_name = Some ''mem0_memories'', arg_force = True\<rparr>
            (world0 \<lparr>q_collections = [''mem0_memories''], q_points = three_points\<rparr> [] qdrant_env)
          = (Return (), w') \<and>
          map fst (calls w') =
            [GetCollections, DeleteCollection ''mem0_memories'',
             CreateCollection ''mem0_memories'' 1536 COSINE])"
proof -
  let ?s = "\<lparr>q_collections = [''mem0_memories''], q_points = three_points\<rparr>"
  let ?w = "world0 ?s [] qdrant_env"
  let ?c = "\<lparr>cfg_url = environ ?w ''QDRANT_URL'',
              cfg_api_key = environ ?w ''QDRANT_API_KEY'',
              cfg_collection_name = getenv_default (environ ?w) ''QDRANT_COLLECTION_NAME'' ''mem0_memories'',
              cfg_embedding_dims = 1536,
              cfg_llm_provider = getenv_default (environ ?w) ''LLM_PROVIDER'' ''github_copilot''\<rparr>"
  have e: "environ ?w ''EMBEDDING_DIMS'' = None"
    by (simp add: world0_def qdrant_env_def)
  have c: "get_qdrant_client ?c = Inr ()"
    by (simp add: get_qdrant_client_def world0_def qdrant_env_def opt_truthy_def)
  have g: "q_get_collections (mock_qdrant []) (service ?w) = (Inr [''mem0_memories''], ?s)"
    by (simp add: mock_qdrant_def world0_def)
  have n1: "opt_or (arg_collection_name \<lparr>arg_collection_name = Some ''mem0_memories'', arg_force = False\<rparr>)
              (cfg_collection_name ?c) \<in> set [''mem0_memories'']"
    by (simp add: opt_or_def)
  have n2: "opt_or (arg_collection_name \<lparr>arg_collection_name = Some ''mem0_memories'', arg_force = True\<rparr>)
              (cfg_collection_name ?c) \<in> set [''mem0_memories'']"
    by (simp add: opt_or_def)
  show ?thesis
    using create_collection_on_existing [OF load_env_config_plain [OF e] c g n1]
          create_collection_on_existing [OF load_env_config_plain [OF e] c g n2]
    by (simp add: opt_or_def world0_def qdrant_env_def mock_qdrant_def returned_def
        get_embedding_dimensions_def getenv_default_def)
qed

subsection \<open>Clearing a collection\<close>

text \<open>
  Claim C2, as amended. \<open>safe_delete_all_memories\<close>, after the confirmation \<open>DELETE\<close>, on N
  records that each have an identifier: it sends one delete request for every record, in
  order, whether or not earlier requests raised, and the count it reports is the number of
  requests that returned; when exactly one of them raised, the count is N - 1.
  \<open>clear_collection\<close> does not delete item by item: it sends one \<open>scroll\<close> and then one bulk
  delete request naming all N point identifiers of the page. When that request returns it
  reports N cleared vectors; when it raises it reports the error and no count.
\<close>

theorem batch_deletion_counts:
  "(mem_get_all api (Some DEFAULT_USER_ID) None None (service w) = (Inr m, s1) \<and>
    response_memories m = PList xs \<and> xs \<noteq> [] \<and> (\<forall>x\<in>set xs. has_id x) \<and>
    stdin w = ''DELETE'' # rest \<longrightarrow>
      (\<exists>w' new. safe_delete_all_memories api w = (True, w') \<and>
         calls w' = calls w @ (GetAll (Some DEFAULT_USER_ID) None None, True) # new \<and>
         map fst new = map (\<lambda>x. Delete (id_of x)) xs \<and>
         last (out w') = LineN ''Successfully deleted memories'' (int (length (filter snd new))) \<and>
         (length (filter (\<lambda>c. \<not> snd c) new) = 1 \<longrightarrow>
            length (filter snd new) = length xs - 1))) \<and>
   (q_scroll qapi name 10000 (service qw) = (Inr points, s2) \<and> points \<noteq> [] \<and>
    q_delete qapi name (map point_id points) s2 = (r, s3) \<longrightarrow>
      (\<exists>w'. clear_collection_try qapi name qw = (Return (), w') \<and>
         service w' = s3 \<and>
         calls w' = calls qw @ [(Scroll name 10000, True),
                                (DeletePoints name (map point_id points), returned r)] \<and>
         last (out w') =
           (case r of
              Inr u \<Rightarrow> LineSN ''Cleared vectors from collection'' name (int (length points))
            | Inl e \<Rightarrow> LineE ''Error clearing collection'' e)))"
proof (intro conjI impI)
  assume h: "mem_get_all api (Some DEFAULT_USER_ID) None None (service w) = (Inr m, s1) \<and>
    response_memories m = PList xs \<and> xs \<noteq> [] \<and> (\<forall>x\<in>set xs. has_id x) \<and>
    stdin w = ''DELETE'' # rest"
  then obtain w' new where
    r: "safe_delete_all_memories api w = (True, w')"
       "calls w' = calls w @ (GetAll (Some DEFAULT_USER_ID) None None, True) # new"
       "map fst new = map (\<lambda>x. Delete (id_of x)) xs"
       "last (out w') = LineN ''Successfully deleted memories'' (int (length (filter snd new)))"
    using safe_delete_all_attempts_all [of api w m s1 xs rest] by blast
  from r(3) have len: "length new = length xs"
    using length_map by metis
  have "length (filter snd new) + length (filter (\<lambda>c. \<not> snd c) new) = length new"
    by (rule sum_length_filter_compl)
  with len have "length (filter (\<lambda>c. \<not> snd c) new) = 1 \<longrightarrow>
            length (filter snd new) = length xs - 1"
    by arith
  with r show "\<exists>w' new. safe_delete_all_memories api w = (True, w') \<and>
         calls w' = calls w @ (GetAll (Some DEFAULT_USER_ID) None None, True) # new \<and>
         map fst new = map (\<lambda>x. Delete (id_of x)) xs \<and>
         last (out w') = LineN ''Successfully deleted memories'' (int (length (filter snd new))) \<and>
         (length (filter (\<lambda>c. \<not> snd c) new) = 1 \<longrightarrow>
            length (filter snd new) = length xs - 1)"
    by blast
next
  assume "q_scroll qapi name 10000 (service qw) = (Inr points, s2) \<and> points \<noteq> [] \<and>
    q_delete qapi name (map point_id points) s2 = (r, s3)"
  then show "\<exists>w'. clear_collection_try qapi name qw = (Return (), w') \<and>
         service w' = s3 \<and>
         calls w' = calls qw @ [(Scroll name 10000, True),
                                (DeletePoints name (map point_id points), returned r)] \<and>
         last (out w') =
           (case r of
              Inr u \<Rightarrow> LineSN ''Cleared vectors from collection'' name (int (length points))
            | Inl e \<Rightarrow> LineE ''Error clearing collection'' e)"
    using clear_collection_try_bulk [of qapi name qw points s2 r s3] by blast
qed

theorem batch_deletion_counts_witness:
  "(\<exists>w' new. safe_delete_all_memories (mock_mem0 [PStr ''m2''])
                (world0 three_memories [''DELETE''] Map.empty) = (True, w') \<and>
      calls w' = (GetAll (Some DEFAULT_USER_ID) None None, True) # new \<and>
      map fst new = [Delete (PStr ''m1''), Delete (PStr ''m2''), Delete (PStr ''m3'')] \<and>
      last (out w') = LineN ''Successfully deleted memories'' (int (length (filter snd new)))) \<and>
   last (out (snd (safe_delete_all_memories (mock_mem0 [PStr ''m2''])
                (world0 three_memories [''DELETE''] Map.empty)))) =
     LineN ''Successfully deleted memories'' 2 \<and>
   (\<exists>w'. clear_collection_try (mock_qdrant []) ''mem0_memories''
            (world0 \<lparr>q_collections = [''mem0_memories''], q_points = three_points\<rparr> [] qdrant_env)
          = (Return (), w') \<and>
      calls w' = [(Scroll ''mem0_memories'' 10000, True),
                  (DeletePoints ''mem0_memories'' [PInt 1, PInt 2, PInt 3], True)] \<and>
      last (out w') = LineSN ''Cleared vectors from collection'' ''mem0_memories'' 3)"
proof -
  let ?w = "world0 three_memories [''DELETE''] Map.empty"
  have pre: "mem_get_all (mock_mem0 [PStr ''m2'']) (Some DEFAULT_USER_ID) None None (service ?w) =
               (Inr (PDict [(''results'', PList three_memories)]), three_memories) \<and>
             response_memories (PDict [(''results'', PList three_memories)]) = PList three_memories \<and>
             three_memories \<noteq> [] \<and> (\<forall>x\<in>set three_memories. has_id x) \<and>
             stdin ?w = ''DELETE'' # []"
    by (simp add: mock_mem0_def world0_def three_memories_def has_id_def)
  have a: "\<exists>w' new. safe_delete_all_memories (mock_mem0 [PStr ''m2'']) ?w = (True, w') \<and>
      calls w' = (GetAll (Some DEFAULT_USER_ID) None None, True) # new \<and>
      map fst new = [Delete (PStr ''m1''), Delete (PStr ''m2''), Delete (PStr ''m3'')] \<and>
      last (out w') = LineN ''Successfully deleted memories'' (int (length (filter snd new)))"
  proof -
    from batch_deletion_counts [THEN conjunct1, THEN mp, OF pre]
    obtain w' new where
      f: "safe_delete_all_memories (mock_mem0 [PStr ''m2'']) ?w = (True, w')"
         "calls w' = calls ?w @ (GetAll (Some DEFAULT_USER_ID) None None, True) # new"
         "map fst new = map (\<lambda>x. Delete (id_of x)) three_memories"
         "last (out w') = LineN ''Successfully deleted memories'' (int (length (filter snd new)))"
      by blast
    have ids: "map (\<lambda>x. Delete (id_of x)) three_memories =
                 [Delete (PStr ''m1''), Delete (PStr ''m2''), Delete (PStr ''m3'')]"
      by (simp add: three_memories_def id_of_def)
    have c0: "calls ?w = []" by (simp add: world0_def)
    from f show ?thesis
      unfolding ids c0 by (intro exI [of _ w'] exI [of _ new]) simp
  qed
  have b: "last (out (snd (safe_delete_all_memories (mock_mem0 [PStr ''m2'']) ?w))) =
     LineN ''Successfully deleted memories'' 2"
    by (simp add: safe_delete_all_memories_def safe_delete_all_memories_try_def mock_mem0_def
        world0_def three_memories_def request_def input_def returned_def Let_def)
  let ?s = "\<lparr>q_collections = [''mem0_memories''], q_points = three_points\<rparr>"
  let ?qw = "world0 ?s [] qdrant_env"
  have qpre: "q_scroll (mock_qdrant []) ''mem0_memories'' 10000 (service ?qw) = (Inr three_points, ?s) \<and>
              three_points \<noteq> [] \<and>
              q_delete (mock_qdrant []) ''mem0_memories'' (map point_id three_points) ?s =
                (Inr (), \<lparr>q_collections = [''mem0_memories''], q_points = []\<rparr>)"
    by (simp add: mock_qdrant_def world0_def three_points_def)
  have c: "\<exists>w'. clear_collection_try (mock_qdrant []) ''mem0_memories'' ?qw = (Return (), w') \<and>
      calls w' = [(Scroll ''mem0_memories'' 10000, True),
                  (DeletePoints ''mem0_memories'' [PInt 1, PInt 2, PInt 3], True)] \<and>
      last (out w') = LineSN ''Cleared vectors from collection'' ''mem0_memories'' 3"
  proof -
    from batch_deletion_counts [THEN conjunct2, THEN mp, OF qpre]
    obtain w' where
      f: "clear_collection_try (mock_qdrant []) ''mem0_memories'' ?qw = (Return (), w')"
         "calls w' = calls ?qw @ [(Scroll ''mem0_memories'' 10000, True),
                                (DeletePoints ''mem0_memories'' (map point_id three_points),
                                   returned (Inr () :: exn + unit))]"
         "last (out w') =
           (case (Inr () :: exn + unit) of
              Inr u \<Rightarrow> LineSN ''Cleared vectors from collection'' ''mem0_memories''
                         (int (length three_points))
            | Inl e \<Rightarrow> LineE ''Error clearing collection'' e)"
      by blast
    then show ?thesis
      by (intro exI [of _ w']) (simp add: world0_def three_points_def returned_def)
  qed
  from a b c show ?thesis by blast
qed

text \<open>
  The claim as stated asks \<open>clear_collection\<close> for N - 1 successes when one item fails. With
  three points, of which the database refuses point 2, the single bulk request fails as a
  whole: the error is printed, no count of 2 is reported, and all three points remain.
\<close>

theorem clear_collection_reports_no_partial_count:
  "calls (snd (clear_collection None (mock_qdrant [PInt 2])
            \<lparr>arg_collection_name = Some ''mem0_memories'', arg_force = True\<rparr>
            (world0 \<lparr>q_collections = [''mem0_memories''], q_points = three_points\<rparr> [] qdrant_env))) =
     [(Scroll ''mem0_memories'' 10000, True),
      (DeletePoints ''mem0_memories'' [PInt 1, PInt 2, PInt 3], False)] \<and>
   out (snd (clear_collection None (mock_qdrant [PInt 2])
            \<lparr>arg_collection_name = Some ''mem0_memories'', arg_force = True\<rparr>
            (world0 \<lparr>q_collections = [''mem0_memories''], q_points = three_points\<rparr> [] qdrant_env))) =
     [Line ''Warning: No .env file found'',
      LineE ''Error clearing collection'' (ClientError ''delete failed'')] \<and>
   q_points (service (snd (clear_collection None (mock_qdrant [PInt 2])
            \<lparr>arg_collection_name = Some ''mem0_memories'', arg_force = True\<rparr>
            (world0 \<lparr>q_collections = [''mem0_memories''], q_points = three_points\<rparr> [] qdrant_env)))) =
     three_points"
proof -
  show ?thesis
    by (simp add: clear_collection_def load_env_config_plain get_qdrant_client_def
        opt_truthy_def opt_or_def clear_collection_try_def request_def mock_qdrant_def
        world0_def qdrant_env_def three_points_def returned_def Let_def)
qed

section \<open>Properties of the command line of the memory manager\<close>

lemma mm_config_total: "\<exists>cfg e. mm_get_mem0_client_config env = Inr (cfg, e)"
proof -
  obtain l1 e1 where a: "configure_llm (PDict []) env = Inr (PDict l1, e1)"
    using configure_llm_dict by blast
  obtain l2 e2 where b: "configure_embedder (PDict l1) e1 = Inr (PDict l2, e2)"
    using configure_embedder_dict by blast
  show ?thesis
    by (simp add: mm_get_mem0_client_config_def a b bind_exn_def)
qed

lemma mm_config_empty:
  "mm_get_mem0_client_config Map.empty =
     Inr (PDict [(''vector_store'',
            PDict [(''provider'', PStr ''supabase''),
                   (''config'', PDict [(''connection_string'', PStr []),
                                       (''collection_name'', PStr ''mem0_memories''),
                                       (''embedding_model_dims'', PInt 1536)])])], Map.empty)"
  by (simp add: mm_get_mem0_client_config_def llm_stage_other embedder_stage_other bind_exn_def
      getenv_default_def vector_store_dims_def)

lemma MemoryManager_init_outcome:
  "\<exists>config ok w1.
     MemoryManager_init api url w = ((if ok then Return () else Exit 1), w1) \<and>
     calls w1 = calls w @ [(FromConfig config, ok)] \<and>
     (\<not> ok \<longrightarrow> (\<exists>e. LineE ''Failed to initialize mem0'' e \<in> set (out w1)))"
proof -
  define w0 where "w0 =
        (case url of
           Some u \<Rightarrow>
             if u \<noteq> [] then
               print (LineS ''Using provided database URL'' (take 50 u))
                 (w\<lparr>environ := (environ w)(''DATABASE_URL'' \<mapsto> u)\<rparr>)
             else if opt_truthy (environ w ''DATABASE_URL'') then
               print (LineS ''Using DATABASE_URL from environment''
                        (take 50 (getenv_default (environ w) ''DATABASE_URL'' []))) w
             else print (Line ''Warning: No DATABASE_URL found in .env or environment.'') w
         | None \<Rightarrow>
             if opt_truthy (environ w ''DATABASE_URL'') then
               print (LineS ''Using DATABASE_URL from environment''
                        (take 50 (getenv_default (environ w) ''DATABASE_URL'' []))) w
             else print (Line ''Warning: No DATABASE_URL found in .env or environment.'') w)"
  have c0: "calls w0 = calls w"
    by (simp add: w0_def split: option.splits)
  obtain cfg e where cfg: "mm_get_mem0_client_config (environ w0) = Inr (cfg, e)"
    using mm_config_total by blast
  obtain r s where f: "mem_from_config api cfg e (service w0) = (r, s)"
    by (cases "mem_from_config api cfg e (service w0)") auto
  have g: "mm_get_mem0_client api w0 =
             (r, w0\<lparr>environ := e, service := s, calls := calls w @ [(FromConfig cfg, returned r)]\<rparr>)"
    using f by (simp add: mm_get_mem0_client_def cfg request_def c0)
  have i: "MemoryManager_init api url w =
             (case mm_get_mem0_client api w0 of
        (Inr u, w2) \<Rightarrow>
          (Return (),
           print (LineS ''LLM Model'' (getenv_default (environ w2) ''LLM_CHOICE'' ''not set''))
             (print (LineS ''LLM Provider'' (getenv_default (environ w2) ''LLM_PROVIDER'' ''not set''))
               (print (Line ''Connected to mem0 successfully'') w2)))
      | (Inl e, w2) \<Rightarrow>
          (Exit 1,
           fold (\<lambda>t. print (Line t))
             [''Check your .env file and ensure all required environment variables are set:'',
              ''   - DATABASE_URL (required)'',
              ''   - LLM_PROVIDER (openai, github_copilot, ollama)'',
              ''   - LLM_CHOICE (model name)'',
              ''   - LLM_API_KEY (if using OpenAI/OpenRouter)'',
              ''   - EMBEDDING_MODEL_CHOICE (optional)'']
             (print (LineE ''Failed to initialize mem0'' e) w2)))"
    unfolding MemoryManager_init_def w0_def Let_def ..
  show ?thesis
  proof (cases r)
    case (Inl x)
    show ?thesis
      unfolding i g Inl
      by (intro exI [of _ cfg] exI [of _ False]) (auto simp: returned_def)
  next
    case (Inr u)
    show ?thesis
      unfolding i g Inr
      by (intro exI [of _ cfg] exI [of _ True]) (simp add: returned_def)
  qed
qed

lemma execute_commands_required:
  assumes "required_error a = Some msg"
  shows "execute_commands api a w = (Exit 1, print (Line msg) w)"
  using assms
  by (auto simp: execute_commands_def required_error_def split: if_splits)

text \<open>
  Claim C7, as amended. When the action that the command chain selects is a delete action
  whose identifier option is absent or empty (no flag earlier in the chain is set), the
  process exits with status 1: either the manager could not be built, and the failure is
  printed, or the last line printed is the error naming the required option. The only
  request sent to the client is the construction of the client: no delete is performed.
\<close>

theorem missing_identifier_exits:
  assumes "required_error a = Some msg"
  shows "\<exists>w' config ok.
           main api a w = (Exit 1, w') \<and> exit_status (fst (main api a w)) = 1 \<and>
           calls w' = calls w @ [(FromConfig config, ok)] \<and>
           (ok \<longrightarrow> last (out w') = Line msg) \<and>
           (\<not> ok \<longrightarrow> (\<exists>e. LineE ''Failed to initialize mem0'' e \<in> set (out w')))"
proof -
  obtain config ok w1 where
    i: "MemoryManager_init api (arg_database_url a) w = ((if ok then Return () else Exit 1), w1)" and
    c: "calls w1 = calls w @ [(FromConfig config, ok)]" and
    f: "\<not> ok \<longrightarrow> (\<exists>e. LineE ''Failed to initialize mem0'' e \<in> set (out w1))"
    using MemoryManager_init_outcome [of api "arg_database_url a" w] by blast
  show ?thesis
  proof (cases ok)
    case True
    then have "main api a w = (Exit 1, print (Line msg) w1)"
      using i by (simp add: main_def execute_commands_required [OF assms])
    then show ?thesis
      using c True by (intro exI [of _ "print (Line msg) w1"] exI [of _ config] exI [of _ True]) simp
  next
    case False
    then have "main api a w = (Exit 1, w1)"
      using i by (simp add: main_def)
    then show ?thesis
      using c f False by (intro exI [of _ w1] exI [of _ config] exI [of _ False]) simp
  qed
qed

theorem missing_identifier_exits_witness:
  "\<exists>w' config.
     main (mock_mem0 []) (no_args\<lparr>arg_delete_user_memories := True\<rparr>)
       (world0 [PDict [(''id'', PStr ''m1'')]] [] Map.empty) = (Exit 1, w') \<and>
     calls w' = [(FromConfig config, True)] \<and>
     last (out w') = Line ''Error: --user-id is required for --delete-user-memories''"
proof -
  let ?a = "no_args\<lparr>arg_delete_user_memories := True\<rparr>"
  let ?w = "world0 [PDict [(''id'', PStr ''m1'')]] [] Map.empty"
  have r: "required_error ?a = Some ''Error: --user-id is required for --delete-user-memories''"
    by (simp add: required_error_def no_args_def opt_truthy_def)
  from missing_identifier_exits [OF r, of "mock_mem0 []" ?w]
  obtain w' config ok where
    f: "main (mock_mem0 []) ?a ?w = (Exit 1, w')"
       "calls w' = calls ?w @ [(FromConfig config, ok)]"
       "ok \<longrightarrow> last (out w') = Line ''Error: --user-id is required for --delete-user-memories''"
    by blast
  have "fst (MemoryManager_init (mock_mem0 []) (arg_database_url ?a) ?w) = Return ()"
    by (simp add: no_args_def MemoryManager_init_def mm_get_mem0_client_def mm_config_empty
        world0_def mock_mem0_def request_def opt_truthy_def Let_def)
  then have "map snd (calls (snd (main (mock_mem0 []) ?a ?w))) = [True]"
    using MemoryManager_init_outcome [of "mock_mem0 []" "arg_database_url ?a" ?w]
    by (auto simp: main_def execute_commands_required [OF r] world0_def split: if_splits)
  with f have ok by (simp add: world0_def)
  with f show ?thesis
    by (intro exI [of _ w'] exI [of _ config]) (simp add: world0_def)
qed

text \<open>
  The claim as stated covers every invocation that selects a delete action without its
  identifier. With \<open>--delete-memory --memory-id m1 --delete-user-memories\<close> (and no
  \<open>--user-id\<close>) the chain stops at \<open>--delete-memory\<close>: the memory \<open>m1\<close> is deleted, main
  returns, and the missing \<open>--user-id\<close> is never reported.
\<close>

theorem earlier_action_flag_wins:
  "fst (main (mock_mem0 [])
          (no_args\<lparr>arg_delete_memory := True, arg_memory_id := Some ''m1'',
                    arg_delete_user_memories := True\<rparr>)
          (world0 [PDict [(''id'', PStr ''m1'')]] [] Map.empty)) = Return () \<and>
   map fst (calls (snd (main (mock_mem0 [])
          (no_args\<lparr>arg_delete_memory := True, arg_memory_id := Some ''m1'',
                    arg_delete_user_memories := True\<rparr>)
          (world0 [PDict [(''id'', PStr ''m1'')]] [] Map.empty)))) ! 1 = Delete (PStr ''m1'') \<and>
   service (snd (main (mock_mem0 [])
          (no_args\<lparr>arg_delete_memory := True, arg_memory_id := Some ''m1'',
                    arg_delete_user_memories := True\<rparr>)
          (world0 [PDict [(''id'', PStr ''m1'')]] [] Map.empty))) = []"
  by (simp add: no_args_def opt_truthy_def opt_or_def main_def MemoryManager_init_def
      execute_commands_def delete_memory_by_id_def
      mm_get_mem0_client_def mm_config_empty world0_def mock_mem0_def request_def returned_def
      Let_def)

end
